theory Spec2Isabelle
  imports Complex_Main "HOL-Library.Sublist"
begin

section \<open>The host interface of MayaLiveLinkUI.py\<close>

text \<open>
  The script runs inside the host application. Everything it does is a call of a host
  command (\<^verbatim>\<open>cmds.<name>(*args, **kwargs)\<close>), of the plugin API, or a write
  to a standard stream. The model records each such call, with its arguments as written in
  the source, in a trace (oldest call first). Queries (\<^verbatim>\<open>q=True\<close>,
  \<^verbatim>\<open>exists=True\<close>, and the argument-less subject and status commands whose
  value the script reads) change nothing; they are answered by the host and are not recorded.
\<close>

text \<open>The closures the script hands to the host as commands of controls.\<close>

datatype callback =
    Callback_OnRemoveSubject string
  | CallbackWithArgs_LiveLinkChangeSubjectName string
  | CallbackWithArgs_LiveLinkChangeSubjectStreamType string
  | Method_AddSelection
  | Method_ShowNetworkEndpointsDialog
  | Closure_CreateUI
  | Closure_OnCancel
  | Closure_OnOk
  | Function_AfterPluginUnloadCallback

text \<open>The dictionary built by the Ok handler of the endpoints dialog.\<close>

record EndpointsDict =
  unicast :: string
  static :: "string list"

text \<open>
  Argument values. \<open>Json d\<close> stands for the string \<^verbatim>\<open>json.dumps(d)\<close>: it is
  not empty, and \<^verbatim>\<open>json.loads\<close> maps it back to \<open>d\<close>.
\<close>

datatype pyval =
    S string
  | I int
  | B bool
  | Fl rat
  | L "pyval list"
  | T "pyval list"
  | Cb callback
  | Json EndpointsDict

datatype call =
    Cmd string "pyval list" "(string \<times> pyval) list"
  | Print string
  | StderrWrite string
  | RegisterCommand string string
  | DeregisterCommand string
  | AddStringArrayCallback string callback
  | RemoveCallback nat

datatype user_action = ClickCancel | ClickOk

text \<open>
  The host: what it answers after a given trace of calls. Nothing is assumed about it.
  \<open>returned\<close> is the value the most recent call of the trace returned (the name of the
  control it created). \<open>set_order\<close> is the order in which the interpreter iterates a set
  of strings, which depends on its hashing: \<open>set_order H xs\<close> ranks the elements of the
  set with the elements \<open>xs\<close>, and the set is iterated by increasing rank.
\<close>

record host =
  window_exists :: "call list \<Rightarrow> string \<Rightarrow> bool"
  setParent_q :: "call list \<Rightarrow> string"
  returned :: "call list \<Rightarrow> string"
  textField_text :: "call list \<Rightarrow> string \<Rightarrow> string"
  dialog_user :: "call list \<Rightarrow> user_action"
  LiveLinkSubjectNames :: "call list \<Rightarrow> string list option"
  LiveLinkSubjectPaths :: "call list \<Rightarrow> string list option"
  LiveLinkSubjectTypes :: "call list \<Rightarrow> string list option"
  LiveLinkSubjectRoles :: "call list \<Rightarrow> string list option"
  LiveLinkConnectionStatus :: "call list \<Rightarrow> string \<times> bool"
  unicastEndpoint_q :: "call list \<Rightarrow> string"
  staticEndpoints_q :: "call list \<Rightarrow> string list"
  registerCommand_raises :: "call list \<Rightarrow> string \<Rightarrow> bool"
  deregisterCommand_raises :: "call list \<Rightarrow> string \<Rightarrow> bool"
  callback_id :: "call list \<Rightarrow> nat"
  set_order :: "string list \<Rightarrow> string \<Rightarrow> nat"

text \<open>The state of the script: the calls issued so far and its one mutable global.\<close>

record state =
  trace :: "call list"
  AfterPluginUnloadCallbackId :: "nat option"

datatype error =
    KeyError string
  | ValueError
  | TypeError
  | NameError string
  | HostException string

text \<open>
  \<open>HostException c\<close> is an exception raised by the host inside the call \<open>c\<close>. An
  exception leaves the function with the state reached when it was raised.
\<close>

type_synonym 'a result = "(error \<times> state) + 'a"

definition issue :: "call \<Rightarrow> state \<Rightarrow> state" where
  "issue c s = s\<lparr>trace := trace s @ [c]\<rparr>"

definition issue_all :: "call list \<Rightarrow> state \<Rightarrow> state" where
  "issue_all cs s = fold issue cs s"

section \<open>Module constants\<close>

definition StreamTypesPerSubjectType_items :: "(string \<times> string list) list" where
  "StreamTypesPerSubjectType_items =
    [(''Prop'', [''Root Only'', ''Full Hierarchy'']),
     (''Character'', [''Root Only'', ''Full Hierarchy'']),
     (''Camera'', [''Root Only'', ''Full Hierarchy'', ''Camera'']),
     (''Light'', [''Root Only'', ''Full Hierarchy'', ''Light''])]"

definition StreamTypesPerSubjectType :: "string \<rightharpoonup> string list" where
  "StreamTypesPerSubjectType = map_of StreamTypesPerSubjectType_items"

definition WindowName :: string where
  "WindowName = ''MayaLiveLinkUI''"

definition ConnectionActiveColour :: pyval where
  "ConnectionActiveColour = L [Fl (71 / 100), Fl (9 / 10), Fl (1 / 10)]"

definition ConnectionInactiveColour :: pyval where
  "ConnectionInactiveColour = L [Fl 1, Fl (4 / 10), Fl (4 / 10)]"

definition ConnectionColourMap :: "bool \<Rightarrow> pyval" where
  "ConnectionColourMap b = (if b then ConnectionActiveColour else ConnectionInactiveColour)"

section \<open>Python primitives the script uses\<close>

text \<open>\<^verbatim>\<open>str(n)\<close> for a non-negative integer: its decimal digits.\<close>

definition digit_char :: "nat \<Rightarrow> char" where
  "digit_char d = ''0123456789'' ! d"

fun str :: "nat \<Rightarrow> string" where
  "str n = (if n < 10 then [digit_char n] else str (n div 10) @ [digit_char (n mod 10)])"

declare str.simps [simp del]

text \<open>\<^verbatim>\<open>xs.index(x)\<close>: the first position of \<open>x\<close>, or ValueError (\<open>None\<close>).\<close>

fun index :: "'a list \<Rightarrow> 'a \<Rightarrow> nat option" where
  "index [] x = None"
| "index (y # ys) x = (if y = x then Some 0 else map_option Suc (index ys x))"

text \<open>
  \<^verbatim>\<open>s.strip()\<close>: the characters Python counts as whitespace, among those a
  \<open>char\<close> can hold, are removed from both ends.
\<close>

definition isspace :: "char \<Rightarrow> bool" where
  "isspace c = ((of_char c :: nat) \<in> set [9, 10, 11, 12, 13, 28, 29, 30, 31, 32, 133, 160])"

definition strip :: "string \<Rightarrow> string" where
  "strip s = rev (dropWhile isspace (rev (dropWhile isspace s)))"

text \<open>\<^verbatim>\<open>s.split(sep)\<close> for a one-character separator.\<close>

fun split :: "string \<Rightarrow> char \<Rightarrow> string list" where
  "split [] sep = [[]]"
| "split (c # cs) sep =
     (if c = sep then [] # split cs sep
      else (let r = split cs sep in (c # hd r) # tl r))"


text \<open>
  \<^verbatim>\<open>list(set(xs) - set(ys))\<close>: the elements of \<open>xs\<close> not in \<open>ys\<close>, each
  once, in the order in which the interpreter iterates the difference set. Every order of
  the elements is the iteration order of some host (\<open>list_set_minus_any_order\<close> below).
\<close>

definition list_set_minus :: "host \<Rightarrow> string list \<Rightarrow> string list \<Rightarrow> string list" where
  "list_set_minus H xs ys =
    (let d = remdups (filter (\<lambda>x. x \<notin> set ys) xs) in sort_key (set_order H d) d)"

text \<open>
  \<^verbatim>\<open>zip(a, b, c, d)\<close> of four query results: TypeError when one of them is
  \<^verbatim>\<open>None\<close>, otherwise as many tuples as the shortest list has elements.
\<close>

definition zip4 ::
  "string list option \<Rightarrow> string list option \<Rightarrow> string list option \<Rightarrow> string list option
    \<Rightarrow> error + (string \<times> string \<times> string \<times> string) list" where
  "zip4 a b c d =
    (case (a, b, c, d) of
       (Some as, Some bs, Some cs, Some ds) \<Rightarrow> Inr (zip as (zip bs (zip cs ds)))
     | _ \<Rightarrow> Inl TypeError)"

section \<open>The subject table\<close>

text \<open>The calls that build the table and its header row.\<close>

definition SubjectTable_calls :: "call list" where
  "SubjectTable_calls =
    [Cmd ''rowColumnLayout'' [S ''SubjectLayout'']
       [(''numberOfColumns'', I 5),
        (''columnWidth'',
           L [T [I 1, I 20], T [I 2, I 80], T [I 3, I 100], T [I 4, I 180], T [I 5, I 120]]),
        (''columnOffset'',
           L [T [I 1, S ''right'', I 5], T [I 2, S ''right'', I 10], T [I 4, S ''left'', I 10]]),
        (''parent'', S ''SubjectWrapperLayout'')],
     Cmd ''text'' [] [(''label'', S [])],
     Cmd ''text'' []
       [(''label'', S ''Subject Type''), (''font'', S ''boldLabelFont''), (''align'', S ''left'')],
     Cmd ''text'' []
       [(''label'', S ''Subject Name''), (''font'', S ''boldLabelFont''), (''align'', S ''left'')],
     Cmd ''text'' []
       [(''label'', S ''DAG Path''), (''font'', S ''boldLabelFont''), (''align'', S ''left'')],
     Cmd ''text'' []
       [(''label'', S ''Stream Type''), (''font'', S ''boldLabelFont''), (''align'', S ''left'')],
     Cmd ''rowColumnLayout'' [S ''SubjectLayout'']
       [(''edit'', B True), (''rowOffset'', T [I 1, S ''bottom'', I 10])]]"

definition CreateSubjectTable :: "host \<Rightarrow> state \<Rightarrow> state" where
  "CreateSubjectTable H s =
    (if \<not> window_exists H (trace s) WindowName then s
     else issue_all SubjectTable_calls s)"

text \<open>
  The calls of one pass of the loop of \<^verbatim>\<open>PopulateSubjects\<close> before the stream-type
  table is read: the remove button, the type label, the name field, the path label, the
  row's column layout and its option menu.
\<close>

definition LayoutName :: "nat \<Rightarrow> string" where
  "LayoutName RowCounter = ''ColumnLayoutRow_'' @ str RowCounter"

definition row_controls :: "nat \<Rightarrow> string \<times> string \<times> string \<times> string \<Rightarrow> call list" where
  "row_controls RowCounter row =
    (case row of (SubjectName, SubjectPath, SubjectType, SubjectRole) \<Rightarrow>
      [Cmd ''button'' []
         [(''label'', S ''-''), (''height'', I 21),
          (''command'', Cb (Callback_OnRemoveSubject SubjectPath)),
          (''parent'', S ''SubjectLayout'')],
       Cmd ''text'' []
         [(''label'', S SubjectType), (''height'', I 21), (''align'', S ''left''),
          (''parent'', S ''SubjectLayout'')],
       Cmd ''textField'' []
         [(''text'', S SubjectName), (''height'', I 21),
          (''changeCommand'', Cb (CallbackWithArgs_LiveLinkChangeSubjectName SubjectPath)),
          (''parent'', S ''SubjectLayout'')],
       Cmd ''text'' []
         [(''label'', S SubjectPath), (''align'', S ''left''), (''height'', I 21),
          (''parent'', S ''SubjectLayout'')],
       Cmd ''columnLayout'' [S (LayoutName RowCounter)] [(''parent'', S ''SubjectLayout'')],
       Cmd ''optionMenu'' [S ''SubjectTypeMenu'']
         [(''parent'', S (LayoutName RowCounter)), (''height'', I 21),
          (''changeCommand'',
             Cb (CallbackWithArgs_LiveLinkChangeSubjectStreamType SubjectPath))]])"

definition menuItem :: "string \<Rightarrow> call" where
  "menuItem StreamType = Cmd ''menuItem'' [] [(''label'', S StreamType)]"

definition optionMenu_select :: "nat \<Rightarrow> call" where
  "optionMenu_select StreamTypeIndex =
    Cmd ''optionMenu'' [S ''SubjectTypeMenu''] [(''edit'', B True), (''select'', I (int StreamTypeIndex))]"

text \<open>
  One pass of the loop. \<^verbatim>\<open>StreamTypesPerSubjectType[SubjectType]\<close> raises KeyError
  for a type the table does not map (the source reads the table twice), and
  \<^verbatim>\<open>.index(SubjectRole)\<close> raises ValueError for a role that is not in the list.
\<close>

definition PopulateRow ::
  "nat \<Rightarrow> string \<times> string \<times> string \<times> string \<Rightarrow> state \<Rightarrow> state result" where
  "PopulateRow RowCounter row s =
    (case row of (SubjectName, SubjectPath, SubjectType, SubjectRole) \<Rightarrow>
      (let s1 = issue_all (row_controls RowCounter row) s in
       case StreamTypesPerSubjectType SubjectType of
         None \<Rightarrow> Inl (KeyError SubjectType, s1)
       | Some StreamTypes \<Rightarrow>
          (let s2 = issue_all (map menuItem StreamTypes) s1 in
           case StreamTypesPerSubjectType SubjectType of
             None \<Rightarrow> Inl (KeyError SubjectType, s2)
           | Some StreamTypes' \<Rightarrow>
              (case index StreamTypes' SubjectRole of
                 None \<Rightarrow> Inl (ValueError, s2)
               | Some i \<Rightarrow> Inr (issue (optionMenu_select (i + 1)) s2)))))"

text \<open>The loop over the zipped lists, with its counter.\<close>

fun PopulateRows ::
  "nat \<Rightarrow> (string \<times> string \<times> string \<times> string) list \<Rightarrow> state \<Rightarrow> state result" where
  "PopulateRows RowCounter [] s = Inr s"
| "PopulateRows RowCounter (row # rows) s =
     (case PopulateRow RowCounter row s of
        Inl e \<Rightarrow> Inl e
      | Inr s' \<Rightarrow> PopulateRows (RowCounter + 1) rows s')"

definition PopulateSubjects :: "host \<Rightarrow> state \<Rightarrow> state result" where
  "PopulateSubjects H s =
    (let SubjectNames = LiveLinkSubjectNames H (trace s);
         SubjectPaths = LiveLinkSubjectPaths H (trace s);
         SubjectTypes = LiveLinkSubjectTypes H (trace s);
         SubjectRoles = LiveLinkSubjectRoles H (trace s)
     in if SubjectPaths \<noteq> None then
          (case zip4 SubjectNames SubjectPaths SubjectTypes SubjectRoles of
             Inl e \<Rightarrow> Inl (e, s)
           | Inr rows \<Rightarrow> PopulateRows 0 rows s)
        else Inr s)"

definition deleteUI :: "string \<Rightarrow> call" where
  "deleteUI name = Cmd ''deleteUI'' [S name] []"

definition ClearSubjects :: "host \<Rightarrow> state \<Rightarrow> state" where
  "ClearSubjects H s =
    (if window_exists H (trace s) WindowName then issue (deleteUI ''SubjectLayout'') s else s)"

definition RefreshSubjects :: "host \<Rightarrow> state \<Rightarrow> state result" where
  "RefreshSubjects H s =
    (if window_exists H (trace s) WindowName then
       PopulateSubjects H (CreateSubjectTable H (issue (deleteUI ''SubjectLayout'') s))
     else Inr s)"



definition MayaLiveLinkRefreshUI_doIt :: "host \<Rightarrow> state \<Rightarrow> state result" where
  "MayaLiveLinkRefreshUI_doIt H s = RefreshSubjects H s"

definition MayaLiveLinkRefreshConnectionUI_doIt :: "host \<Rightarrow> state \<Rightarrow> state" where
  "MayaLiveLinkRefreshConnectionUI_doIt H s =
    (if window_exists H (trace s) WindowName then
       (case LiveLinkConnectionStatus H (trace s) of (ConnectionText, ConnectedState) \<Rightarrow>
          issue (Cmd ''text'' [S ''ConnectionStatusUI'']
                   [(''edit'', B True), (''label'', S ConnectionText),
                    (''backgroundColor'', ConnectionColourMap ConnectedState)]) s)
     else s)"


section \<open>Command classes\<close>

text \<open>
  A Python object is a class or something else. Classes are compared by identity, so a
  class object is \<open>PyClass i\<close> with \<open>i\<close> its identity, and what the interpreter
  knows of the class, its \<^verbatim>\<open>__name__\<close> and the identities of its linearised ancestors
  \<^verbatim>\<open>__mro__\<close> (the class itself first), is in a table by identity. Two classes may have
  the same name. \<open>PyOther d\<close> is any object that is not a class (a module, a function, a
  list, a dictionary), with a description.
\<close>

type_synonym class_id = nat

datatype pyobj = PyClass class_id | PyOther string

record pyclass =
  class_name :: string
  class_mro :: "class_id list"

type_synonym classes = "class_id \<Rightarrow> pyclass"

text \<open>\<^verbatim>\<open>Command.__name__\<close>.\<close>

fun cls_name :: "classes \<Rightarrow> pyobj \<Rightarrow> string" where
  "cls_name CT (PyClass i) = class_name (CT i)"
| "cls_name CT (PyOther d) = d"

text \<open>The identities of the classes this module sees.\<close>

definition object_id :: class_id where "object_id = 0"
definition MPxCommand_id :: class_id where "MPxCommand_id = 1"
definition LiveLinkCommand_id :: class_id where "LiveLinkCommand_id = 2"
definition MayaLiveLinkUI_id :: class_id where "MayaLiveLinkUI_id = 3"
definition MayaLiveLinkRefreshUI_id :: class_id where "MayaLiveLinkRefreshUI_id = 4"
definition MayaLiveLinkRefreshConnectionUI_id :: class_id where
  "MayaLiveLinkRefreshConnectionUI_id = 5"
definition Callback_id :: class_id where "Callback_id = 6"
definition CallbackWithArgs_id :: class_id where "CallbackWithArgs_id = 7"

definition LiveLinkCommand :: pyobj where
  "LiveLinkCommand = PyClass LiveLinkCommand_id"

text \<open>\<^verbatim>\<open>inspect.isclass\<close>.\<close>

fun isclass :: "pyobj \<Rightarrow> bool" where
  "isclass (PyClass i) = True"
| "isclass (PyOther d) = False"

text \<open>
  \<^verbatim>\<open>issubclass(a, b)\<close>: TypeError unless both are classes; otherwise whether \<open>b\<close>
  itself is among the ancestors of \<open>a\<close>.
\<close>

fun issubclass :: "classes \<Rightarrow> pyobj \<Rightarrow> pyobj \<Rightarrow> error + bool" where
  "issubclass CT (PyClass a) (PyClass b) = Inr (b \<in> set (class_mro (CT a)))"
| "issubclass CT (PyClass a) (PyOther d) = Inl TypeError"
| "issubclass CT (PyOther d) b = Inl TypeError"

text \<open>
  \<^verbatim>\<open>a and b and c\<close> evaluates \<open>b\<close> only when \<open>a\<close> is true, and \<open>c\<close> only when
  \<open>b\<close> is.
\<close>

definition IsLiveLinkCommand :: "classes \<Rightarrow> pyobj \<Rightarrow> error + bool" where
  "IsLiveLinkCommand CT InCls =
    (if \<not> isclass InCls then Inr False
     else (case issubclass CT InCls LiveLinkCommand of
             Inl e \<Rightarrow> Inl e
           | Inr b \<Rightarrow> if \<not> b then Inr False else Inr (InCls \<noteq> LiveLinkCommand)))"

text \<open>
  \<^verbatim>\<open>eval(Item)\<close> for an item of \<^verbatim>\<open>dir()\<close>, a name: its binding in the
  module's namespace, NameError when there is none. The generator is consumed by the list
  comprehension item by item, so the first exception in that order leaves the function.
\<close>

fun GetLiveLinkCommandsFromModule ::
  "classes \<Rightarrow> (string \<rightharpoonup> pyobj) \<Rightarrow> string list \<Rightarrow> error + pyobj list" where
  "GetLiveLinkCommandsFromModule CT env [] = Inr []"
| "GetLiveLinkCommandsFromModule CT env (Item # ModuleItems) =
     (case env Item of
        None \<Rightarrow> Inl (NameError Item)
      | Some Command \<Rightarrow>
         (case IsLiveLinkCommand CT Command of
            Inl e \<Rightarrow> Inl e
          | Inr keep \<Rightarrow>
             (case GetLiveLinkCommandsFromModule CT env ModuleItems of
                Inl e \<Rightarrow> Inl e
              | Inr rest \<Rightarrow> Inr (if keep then Command # rest else rest))))"

text \<open>
  The names the source has bound at module level when \<^verbatim>\<open>Commands\<close> is computed, in
  the order of \<^verbatim>\<open>dir()\<close> (sorted), with the objects they are bound to. The names
  the interpreter adds (\<^verbatim>\<open>__name__\<close>, \<^verbatim>\<open>__doc__\<close>, ...) are left out: which
  ones exist depends on the interpreter, and none of them is bound by this file.
\<close>

definition MayaLiveLinkUI :: pyobj where
  "MayaLiveLinkUI = PyClass MayaLiveLinkUI_id"

definition MayaLiveLinkRefreshUI :: pyobj where
  "MayaLiveLinkRefreshUI = PyClass MayaLiveLinkRefreshUI_id"

definition MayaLiveLinkRefreshConnectionUI :: pyobj where
  "MayaLiveLinkRefreshConnectionUI = PyClass MayaLiveLinkRefreshConnectionUI_id"

text \<open>
  The classes of the module, by identity: the three commands derive from
  \<^verbatim>\<open>LiveLinkCommand\<close>, which derives from the host's \<^verbatim>\<open>MPxCommand\<close>.
\<close>

definition module_classes_list :: "pyclass list" where
  "module_classes_list =
    [\<lparr>class_name = ''object'', class_mro = [object_id]\<rparr>,
     \<lparr>class_name = ''MPxCommand'', class_mro = [MPxCommand_id, object_id]\<rparr>,
     \<lparr>class_name = ''LiveLinkCommand'',
      class_mro = [LiveLinkCommand_id, MPxCommand_id, object_id]\<rparr>,
     \<lparr>class_name = ''MayaLiveLinkUI'',
      class_mro = [MayaLiveLinkUI_id, LiveLinkCommand_id, MPxCommand_id, object_id]\<rparr>,
     \<lparr>class_name = ''MayaLiveLinkRefreshUI'',
      class_mro = [MayaLiveLinkRefreshUI_id, LiveLinkCommand_id, MPxCommand_id, object_id]\<rparr>,
     \<lparr>class_name = ''MayaLiveLinkRefreshConnectionUI'',
      class_mro =
        [MayaLiveLinkRefreshConnectionUI_id, LiveLinkCommand_id, MPxCommand_id, object_id]\<rparr>,
     \<lparr>class_name = ''Callback'', class_mro = [Callback_id, object_id]\<rparr>,
     \<lparr>class_name = ''CallbackWithArgs'',
      class_mro = [CallbackWithArgs_id, Callback_id, object_id]\<rparr>]"

definition classes_of_list :: "pyclass list \<Rightarrow> classes" where
  "classes_of_list cs i =
    (if i < length cs then cs ! i else \<lparr>class_name = ''object'', class_mro = [object_id]\<rparr>)"

definition module_classes :: classes where
  "module_classes = classes_of_list module_classes_list"

definition module_globals :: "(string \<times> pyobj) list" where
  "module_globals =
    [(''Callback'', PyClass Callback_id),
     (''CallbackWithArgs'', PyClass CallbackWithArgs_id),
     (''ClearSubjects'', PyOther ''function''),
     (''ConnectionActiveColour'', PyOther ''list''),
     (''ConnectionColourMap'', PyOther ''dict''),
     (''ConnectionInactiveColour'', PyOther ''list''),
     (''CreateSubjectTable'', PyOther ''function''),
     (''GetLiveLinkCommandsFromModule'', PyOther ''function''),
     (''IsLiveLinkCommand'', PyOther ''function''),
     (''LiveLinkCommand'', LiveLinkCommand),
     (''MayaLiveLinkRefreshConnectionUI'', MayaLiveLinkRefreshConnectionUI),
     (''MayaLiveLinkRefreshUI'', MayaLiveLinkRefreshUI),
     (''MayaLiveLinkUI'', MayaLiveLinkUI),
     (''OnRemoveSubject'', PyOther ''function''),
     (''OpenMaya'', PyOther ''module''),
     (''OpenMayaMPx'', PyOther ''module''),
     (''PopulateSubjects'', PyOther ''function''),
     (''RefreshSubjects'', PyOther ''function''),
     (''StreamTypesPerSubjectType'', PyOther ''dict''),
     (''cmds'', PyOther ''module''),
     (''inspect'', PyOther ''module''),
     (''json'', PyOther ''module''),
     (''sys'', PyOther ''module'')]"

definition Commands :: "error + pyobj list" where
  "Commands =
    GetLiveLinkCommandsFromModule module_classes (map_of module_globals) (map fst module_globals)"

section \<open>The main window\<close>

definition Title :: string where
  "Title = ''Maya Live Link UI''"

definition WindowSize :: "int \<times> int" where
  "WindowSize = (500, 300)"

text \<open>
  \<^verbatim>\<open>MayaLiveLinkUI.doIt\<close>: the window is deleted when it exists and built again, with
  the connection status, the subject table, the Add Selection button and the Settings menu.
\<close>

definition MayaLiveLinkUI_doIt :: "host \<Rightarrow> state \<Rightarrow> state result" where
  "MayaLiveLinkUI_doIt H s =
    (let s1 = (if window_exists H (trace s) WindowName then issue (deleteUI WindowName) s else s);
         s2 = issue (Cmd ''window'' [S WindowName]
                 [(''title'', S Title), (''menuBar'', B True),
                  (''widthHeight'', T [I (fst WindowSize), I (snd WindowSize)])]) s1
     in case LiveLinkConnectionStatus H (trace s2) of
          (ConnectionText, ConnectedState) \<Rightarrow>
            (let s3 = issue_all
                   [Cmd ''columnLayout'' [S ''mainColumn''] [(''adjustableColumn'', B True)],
                    Cmd ''rowLayout'' [S ''HeaderRow'']
                      [(''numberOfColumns'', I 3), (''adjustableColumn'', I 1),
                       (''parent'', S ''mainColumn'')],
                    Cmd ''text'' [] [(''label'', S ''Unreal Engine Live Link''), (''align'', S ''left'')],
                    Cmd ''text'' [] [(''label'', S ''Connection:'')],
                    Cmd ''text'' [S ''ConnectionStatusUI'']
                      [(''label'', S ConnectionText), (''align'', S ''center''),
                       (''backgroundColor'', ConnectionColourMap ConnectedState),
                       (''width'', I 150)],
                    Cmd ''separator'' []
                      [(''h'', I 20), (''style'', S ''none''), (''parent'', S ''mainColumn'')],
                    Cmd ''columnLayout'' [S ''SubjectWrapperLayout'']
                      [(''parent'', S ''mainColumn'')]] s2
             in case PopulateSubjects H (CreateSubjectTable H s3) of
                  Inl e \<Rightarrow> Inl e
                | Inr s4 \<Rightarrow>
                   (let s5 = issue_all
                          [Cmd ''separator'' []
                             [(''h'', I 20), (''style'', S ''none''), (''parent'', S ''mainColumn'')],
                           Cmd ''button'' []
                             [(''label'', S ''Add Selection''), (''parent'', S ''mainColumn''),
                              (''command'', Cb Method_AddSelection)],
                           Cmd ''menu'' [] [(''label'', S ''Settings''), (''parent'', S WindowName)]] s4;
                        SettingsMenu = returned H (trace s5)
                    in Inr (issue_all
                          [Cmd ''menuItem'' []
                             [(''label'', S ''Network Endpoints''), (''parent'', S SettingsMenu),
                              (''command'', Cb Method_ShowNetworkEndpointsDialog)],
                           Cmd ''showWindow'' [S WindowName] []] s5))))"

section \<open>The network-endpoints dialog\<close>

text \<open>\<^verbatim>\<open>sep.join(xs)\<close>.\<close>

fun join :: "string \<Rightarrow> string list \<Rightarrow> string" where
  "join sep [] = []"
| "join sep [x] = x"
| "join sep (x # y # ys) = x @ sep @ join sep (y # ys)"

text \<open>
  \<^verbatim>\<open>CreateUI\<close> builds the dialog; the names the host returns for the two text fields
  are the closure variables the Ok handler reads.
\<close>

definition CreateUI :: "host \<Rightarrow> string \<Rightarrow> string list \<Rightarrow> state \<Rightarrow> (string \<times> string) \<times> state" where
  "CreateUI H UnicastEndpoint StaticEndpoints s =
    (let Form = setParent_q H (trace s);
         s1 = issue (Cmd ''columnLayout'' [S ''NetworkEndpointsDialogLayout'']
                 [(''parent'', S Form), (''columnWidth'', I 400)]) s;
         DialogLayout = returned H (trace s1);
         s2 = issue (Cmd ''rowColumnLayout'' [S ''EndpointsLayout'']
                 [(''parent'', S DialogLayout), (''numberOfColumns'', I 2),
                  (''adjustableColumn'', I 2),
                  (''columnWidth'', L [T [I 1, I 100], T [I 2, I 300]]),
                  (''columnOffset'', L [T [I 1, S ''left'', I 5], T [I 2, S ''left'', I 5]])]) s1;
         EndpointsLayout = returned H (trace s2);
         s3 = issue (Cmd ''text'' []
                 [(''parent'', S EndpointsLayout), (''label'', S ''Unicast Endpoint:''),
                  (''font'', S ''boldLabelFont''), (''height'', I 30), (''align'', S ''left'')]) s2;
         s4 = issue (Cmd ''textField'' []
                 [(''parent'', S EndpointsLayout), (''text'', S UnicastEndpoint),
                  (''placeholderText'', S ''X.X.X.X:X'')]) s3;
         UnicastTextField = returned H (trace s4);
         s5 = issue (Cmd ''text'' []
                 [(''parent'', S EndpointsLayout), (''label'', S ''Static Endpoints:''),
                  (''font'', S ''boldLabelFont''), (''height'', I 30), (''align'', S ''left'')]) s4;
         s6 = issue (Cmd ''textField'' []
                 [(''parent'', S EndpointsLayout), (''text'', S (join '','' StaticEndpoints)),
                  (''placeholderText'', S ''X.X.X.X:X,Y.Y.Y.Y:Y,...'')]) s5;
         StaticTextField = returned H (trace s6);
         s7 = issue (Cmd ''rowLayout'' [S ''ButtonsLayout'']
                 [(''parent'', S DialogLayout), (''numberOfColumns'', I 2),
                  (''columnWidth'', L [T [I 1, I 200], T [I 2, I 200]])]) s6;
         ButtonsLayout = returned H (trace s7);
         s8 = issue (Cmd ''button'' []
                 [(''parent'', S ButtonsLayout), (''label'', S ''Cancel''), (''width'', I 200),
                  (''height'', I 30), (''command'', Cb Closure_OnCancel)]) s7;
         s9 = issue (Cmd ''button'' []
                 [(''parent'', S ButtonsLayout), (''label'', S ''Ok''), (''width'', I 200),
                  (''height'', I 30), (''command'', Cb Closure_OnOk)]) s8
     in ((UnicastTextField, StaticTextField), s9))"

text \<open>
  The two handlers dismiss the dialog with a string, which becomes the value of
  \<^verbatim>\<open>cmds.layoutDialog(ui=CreateUI, ...)\<close>.
\<close>

definition OnCancel :: "state \<Rightarrow> pyval \<times> state" where
  "OnCancel s = (S [], issue (Cmd ''layoutDialog'' [] [(''dismiss'', S [])]) s)"

text \<open>
  The dictionary of the Ok handler, from the texts of the two fields.
  \<^verbatim>\<open>text.strip() or []\<close> is the stripped text unless that is empty, and only a
  non-empty one is split.
\<close>

definition OnOk_dict :: "string \<Rightarrow> string \<Rightarrow> EndpointsDict" where
  "OnOk_dict UnicastText StaticText =
    (let NewUnicastEndpoint = strip UnicastText;
         NewUnicastEndpoint' =
           (if NewUnicastEndpoint = [] then ''0.0.0.0:0'' else NewUnicastEndpoint);
         NewStaticEndpoints = strip StaticText;
         NewStaticEndpoints' =
           (if NewStaticEndpoints \<noteq> []
            then map strip (split NewStaticEndpoints CHR '','') else [])
     in \<lparr>unicast = NewUnicastEndpoint', static = NewStaticEndpoints'\<rparr>)"

definition OnOk :: "host \<Rightarrow> string \<Rightarrow> string \<Rightarrow> state \<Rightarrow> pyval \<times> state" where
  "OnOk H UnicastTextField StaticTextField s =
    (let EndpointsDict =
           OnOk_dict (textField_text H (trace s) UnicastTextField)
                     (textField_text H (trace s) StaticTextField)
     in (Json EndpointsDict,
         issue (Cmd ''layoutDialog'' [] [(''dismiss'', Json EndpointsDict)]) s))"

text \<open>
  The modal dialog: the host runs \<^verbatim>\<open>CreateUI\<close>, then the user presses one of the two
  buttons.
\<close>

definition layoutDialog :: "host \<Rightarrow> string \<Rightarrow> string list \<Rightarrow> state \<Rightarrow> pyval \<times> state" where
  "layoutDialog H UnicastEndpoint StaticEndpoints s =
    (let s1 = issue (Cmd ''layoutDialog'' []
                 [(''ui'', Cb Closure_CreateUI), (''title'', S ''Set Network Endpoints'')]) s
     in case CreateUI H UnicastEndpoint StaticEndpoints s1 of
          ((UnicastTextField, StaticTextField), s2) \<Rightarrow>
            (case dialog_user H (trace s2) of
               ClickCancel \<Rightarrow> OnCancel s2
             | ClickOk \<Rightarrow> OnOk H UnicastTextField StaticTextField s2))"

text \<open>Truth value of a Python value, and \<^verbatim>\<open>json.loads\<close> on a dialog result.\<close>

fun truthy :: "pyval \<Rightarrow> bool" where
  "truthy (S x) = (x \<noteq> [])"
| "truthy (I i) = (i \<noteq> 0)"
| "truthy (B b) = b"
| "truthy (Fl r) = (r \<noteq> 0)"
| "truthy (L xs) = (xs \<noteq> [])"
| "truthy (T xs) = (xs \<noteq> [])"
| "truthy (Cb c) = True"
| "truthy (Json d) = True"

fun json_loads :: "pyval \<Rightarrow> error + EndpointsDict" where
  "json_loads (Json d) = Inr d"
| "json_loads v = Inl ValueError"

definition set_unicastEndpoint :: "string \<Rightarrow> call" where
  "set_unicastEndpoint NewUnicastEndpoint =
    Cmd ''LiveLinkMessagingSettings'' [S NewUnicastEndpoint] [(''unicastEndpoint'', B True)]"

definition removeEndpoint :: "string list \<Rightarrow> call" where
  "removeEndpoint RemovedStaticEndpoints =
    Cmd ''LiveLinkMessagingSettings'' (map S RemovedStaticEndpoints)
      [(''staticEndpoints'', B True), (''removeEndpoint'', B True)]"

definition addEndpoint :: "string list \<Rightarrow> call" where
  "addEndpoint AddedStaticEndpoints =
    Cmd ''LiveLinkMessagingSettings'' (map S AddedStaticEndpoints)
      [(''staticEndpoints'', B True), (''addEndpoint'', B True)]"

definition ShowNetworkEndpointsDialog :: "host \<Rightarrow> state \<Rightarrow> state result" where
  "ShowNetworkEndpointsDialog H s =
    (let UnicastEndpoint = unicastEndpoint_q H (trace s);
         StaticEndpoints = staticEndpoints_q H (trace s)
     in case layoutDialog H UnicastEndpoint StaticEndpoints s of
          (result, s1) \<Rightarrow>
            if truthy result then
              (case json_loads result of
                 Inl e \<Rightarrow> Inl (e, s1)
               | Inr EndpointsDict \<Rightarrow>
                  (let NewUnicastEndpoint = unicast EndpointsDict;
                       NewStaticEndpoints = static EndpointsDict;
                       s2 = (if NewUnicastEndpoint \<noteq> UnicastEndpoint
                             then issue (set_unicastEndpoint NewUnicastEndpoint) s1 else s1)
                   in if NewStaticEndpoints \<noteq> StaticEndpoints then
                        (let RemovedStaticEndpoints =
                               list_set_minus H StaticEndpoints NewStaticEndpoints;
                             AddedStaticEndpoints =
                               list_set_minus H NewStaticEndpoints StaticEndpoints;
                             s3 = (if RemovedStaticEndpoints \<noteq> []
                                   then issue (removeEndpoint RemovedStaticEndpoints) s2 else s2);
                             s4 = (if AddedStaticEndpoints \<noteq> []
                                   then issue (addEndpoint AddedStaticEndpoints) s3 else s3)
                         in Inr s4)
                      else Inr s2))
            else Inr s1)"

section \<open>Plugin lifecycle\<close>

definition registering_message :: "string \<Rightarrow> string" where
  "registering_message name = CHR 0x09 # ''Registering Command '' @ [CHR 0x27] @ name @ [CHR 0x27]"

definition register_failed_message :: "string \<Rightarrow> string" where
  "register_failed_message name = ''Failed to register command: '' @ name @ [CHR 0x0A]"

definition unregister_failed_message :: "string \<Rightarrow> string" where
  "unregister_failed_message name = ''Failed to unregister command: '' @ name @ [CHR 0x0A]"

text \<open>
  The registration loop. When \<^verbatim>\<open>registerCommand\<close> raises, the handler writes to
  the error stream and raises the exception again.
\<close>

fun register_loop :: "host \<Rightarrow> classes \<Rightarrow> pyobj list \<Rightarrow> state \<Rightarrow> state result" where
  "register_loop H CT [] s = Inr s"
| "register_loop H CT (Command # Cmds) s =
     (let s1 = issue (Print (registering_message (cls_name CT Command))) s;
          s2 = issue (RegisterCommand (cls_name CT Command) (cls_name CT Command)) s1
      in if registerCommand_raises H (trace s1) (cls_name CT Command)
         then Inl (HostException ''registerCommand'',
                   issue (StderrWrite (register_failed_message (cls_name CT Command))) s2)
         else register_loop H CT Cmds s2)"

definition initializePlugin :: "host \<Rightarrow> classes \<Rightarrow> pyobj list \<Rightarrow> state \<Rightarrow> state result" where
  "initializePlugin H CT Cmds s =
    (case register_loop H CT Cmds (issue (Print ''LiveLink:'') s) of
       Inl e \<Rightarrow> Inl e
     | Inr s1 \<Rightarrow>
        (let s2 = issue (AddStringArrayCallback ''kAfterPluginUnload''
                           Function_AfterPluginUnloadCallback) s1
         in Inr (s2\<lparr>AfterPluginUnloadCallbackId := Some (callback_id H (trace s2))\<rparr>)))"

text \<open>
  The deregistration loop. When \<^verbatim>\<open>deregisterCommand\<close> raises, the handler writes
  to the error stream and the loop goes on.
\<close>

fun deregister_loop :: "host \<Rightarrow> classes \<Rightarrow> pyobj list \<Rightarrow> state \<Rightarrow> state" where
  "deregister_loop H CT [] s = s"
| "deregister_loop H CT (Command # Cmds) s =
     (let s1 = issue (DeregisterCommand (cls_name CT Command)) s
      in if deregisterCommand_raises H (trace s) (cls_name CT Command)
         then deregister_loop H CT Cmds
                (issue (StderrWrite (unregister_failed_message (cls_name CT Command))) s1)
         else deregister_loop H CT Cmds s1)"

definition uninitializePlugin :: "host \<Rightarrow> classes \<Rightarrow> pyobj list \<Rightarrow> state \<Rightarrow> state" where
  "uninitializePlugin H CT Cmds s =
    (let s1 = (case AfterPluginUnloadCallbackId s of
                 Some i \<Rightarrow> (issue (RemoveCallback i) s)\<lparr>AfterPluginUnloadCallbackId := None\<rparr>
               | None \<Rightarrow> s)
     in deregister_loop H CT Cmds s1)"

section \<open>Observations on results and traces\<close>

text \<open>The state a call ends in, whether it returned or raised.\<close>

fun result_state :: "state result \<Rightarrow> state" where
  "result_state (Inl (e, s)) = s"
| "result_state (Inr s) = s"



fun is_MessagingSettings :: "call \<Rightarrow> bool" where
  "is_MessagingSettings (Cmd n args kwargs) = (n = ''LiveLinkMessagingSettings'')"
| "is_MessagingSettings c = False"

fun is_StderrWrite :: "call \<Rightarrow> bool" where
  "is_StderrWrite (StderrWrite msg) = True"
| "is_StderrWrite c = False"

text \<open>
  The subject rows of a trace: the names of the column layouts created under the subject
  table, one per row.
\<close>

fun row_layout_of :: "call \<Rightarrow> string option" where
  "row_layout_of (Cmd n [S name] [(k, S p)]) =
     (if n = ''columnLayout'' \<and> k = ''parent'' \<and> p = ''SubjectLayout'' then Some name else None)"
| "row_layout_of c = None"

definition row_layouts :: "call list \<Rightarrow> string list" where
  "row_layouts tr = List.map_filter row_layout_of tr"

text \<open>All calls of one pass of the loop of \<^verbatim>\<open>PopulateSubjects\<close> that ends normally.\<close>

definition row_calls :: "nat \<Rightarrow> string \<times> string \<times> string \<times> string \<Rightarrow> call list" where
  "row_calls RowCounter row =
    (case row of (SubjectName, SubjectPath, SubjectType, SubjectRole) \<Rightarrow>
      row_controls RowCounter row @
      (case StreamTypesPerSubjectType SubjectType of
         None \<Rightarrow> []
       | Some StreamTypes \<Rightarrow>
           map menuItem StreamTypes @
           (case index StreamTypes SubjectRole of
              None \<Rightarrow> []
            | Some i \<Rightarrow> [optionMenu_select (i + 1)])))"

text \<open>A subject whose type the table maps and whose role is in that type's list.\<close>

definition valid_subject :: "string \<times> string \<times> string \<times> string \<Rightarrow> bool" where
  "valid_subject row =
    (case row of (SubjectName, SubjectPath, SubjectType, SubjectRole) \<Rightarrow>
      (case StreamTypesPerSubjectType SubjectType of
         None \<Rightarrow> False
       | Some StreamTypes \<Rightarrow> SubjectRole \<in> set StreamTypes))"

text \<open>The calls of the whole loop when every pass ends normally.\<close>

fun rows_calls :: "nat \<Rightarrow> (string \<times> string \<times> string \<times> string) list \<Rightarrow> call list" where
  "rows_calls RowCounter [] = []"
| "rows_calls RowCounter (row # rows) = row_calls RowCounter row @ rows_calls (RowCounter + 1) rows"

text \<open>The exception a pass of the loop raises for a subject that is not valid.\<close>

definition row_error :: "string \<times> string \<times> string \<times> string \<Rightarrow> error" where
  "row_error row =
    (case row of (SubjectName, SubjectPath, SubjectType, SubjectRole) \<Rightarrow>
      (case StreamTypesPerSubjectType SubjectType of
         None \<Rightarrow> KeyError SubjectType
       | Some StreamTypes \<Rightarrow> ValueError))"

text \<open>The positional and the keyword arguments of a call of a command.\<close>

fun call_args :: "call \<Rightarrow> pyval list" where
  "call_args (Cmd n args kwargs) = args"
| "call_args c = []"

fun call_kwargs :: "call \<Rightarrow> (string \<times> pyval) list" where
  "call_kwargs (Cmd n args kwargs) = kwargs"
| "call_kwargs c = []"

text \<open>The calls of one pass of the registration loop that ends normally.\<close>

definition register_calls :: "classes \<Rightarrow> pyobj \<Rightarrow> call list" where
  "register_calls CT Command =
    [Print (registering_message (cls_name CT Command)),
     RegisterCommand (cls_name CT Command) (cls_name CT Command)]"

definition subscribe_call :: call where
  "subscribe_call = AddStringArrayCallback ''kAfterPluginUnload'' Function_AfterPluginUnloadCallback"

text \<open>
  Whether the \<open>k\<close>-th \<^verbatim>\<open>registerCommand\<close> call raises, in a run of the
  registration loop that starts with the trace \<open>tr\<close> and in which no earlier call raised.
\<close>

definition register_raises_at :: "host \<Rightarrow> classes \<Rightarrow> call list \<Rightarrow> pyobj list \<Rightarrow> nat \<Rightarrow> bool" where
  "register_raises_at H CT tr Cmds k =
    registerCommand_raises H
      (tr @ concat (map (register_calls CT) (take k Cmds))
          @ [Print (registering_message (cls_name CT (Cmds ! k)))])
      (cls_name CT (Cmds ! k))"

text \<open>
  The calls of one pass of the deregistration loop, given whether its
  \<^verbatim>\<open>deregisterCommand\<close> call raised, and the calls of the passes for the commands
  \<open>Cmds\<close> given which calls raised.
\<close>

definition deregister_calls :: "classes \<Rightarrow> pyobj \<Rightarrow> bool \<Rightarrow> call list" where
  "deregister_calls CT Command raised =
    DeregisterCommand (cls_name CT Command)
    # (if raised then [StderrWrite (unregister_failed_message (cls_name CT Command))] else [])"

definition deregister_passes :: "classes \<Rightarrow> pyobj list \<Rightarrow> bool list \<Rightarrow> call list" where
  "deregister_passes CT Cmds raised =
    concat (map (\<lambda>(Command, r). deregister_calls CT Command r) (zip Cmds raised))"

section \<open>Example hosts and classes\<close>

text \<open>
  The classes of the module and two more: another class that is also named
  \<^verbatim>\<open>LiveLinkCommand\<close>, and a class \<^verbatim>\<open>Foo\<close> that derives from that one.
\<close>

definition shadowing_classes :: classes where
  "shadowing_classes =
    classes_of_list
      (module_classes_list @
       [\<lparr>class_name = ''LiveLinkCommand'', class_mro = [8, object_id]\<rparr>,
        \<lparr>class_name = ''Foo'', class_mro = [9, 8, object_id]\<rparr>])"

definition initial_state :: state where
  "initial_state = \<lparr>trace = [], AfterPluginUnloadCallbackId = None\<rparr>"

text \<open>A host with no window, no subjects, a user who cancels, and calls that never raise.\<close>

definition quiet_host :: host where
  "quiet_host =
    \<lparr>window_exists = (\<lambda>tr n. False),
     setParent_q = (\<lambda>tr. ''layoutDialogForm''),
     returned = (\<lambda>tr. ''control'' @ str (length tr)),
     textField_text = (\<lambda>tr n. []),
     dialog_user = (\<lambda>tr. ClickCancel),
     LiveLinkSubjectNames = (\<lambda>tr. None),
     LiveLinkSubjectPaths = (\<lambda>tr. None),
     LiveLinkSubjectTypes = (\<lambda>tr. None),
     LiveLinkSubjectRoles = (\<lambda>tr. None),
     LiveLinkConnectionStatus = (\<lambda>tr. (''No Connection'', False)),
     unicastEndpoint_q = (\<lambda>tr. ''0.0.0.0:0''),
     staticEndpoints_q = (\<lambda>tr. []),
     registerCommand_raises = (\<lambda>tr n. False),
     deregisterCommand_raises = (\<lambda>tr n. False),
     callback_id = (\<lambda>tr. length tr),
     set_order = (\<lambda>xs x. 0)\<rparr>"

text \<open>The same host with the main window open.\<close>

definition window_host :: host where
  "window_host = quiet_host\<lparr>window_exists := (\<lambda>tr n. n = WindowName)\<rparr>"

text \<open>A host with the window open and two subjects, a prop and a camera.\<close>

definition subjects_host :: host where
  "subjects_host =
    window_host
      \<lparr>LiveLinkSubjectNames := (\<lambda>tr. Some [''Cube'', ''ShotCam'']),
       LiveLinkSubjectPaths := (\<lambda>tr. Some [''|pCube1'', ''|camera1'']),
       LiveLinkSubjectTypes := (\<lambda>tr. Some [''Prop'', ''Camera'']),
       LiveLinkSubjectRoles := (\<lambda>tr. Some [''Root Only'', ''Camera''])\<rparr>"

text \<open>The same subjects, the first with a type the stream-type table does not map.\<close>

definition unmapped_type_host :: host where
  "unmapped_type_host =
    subjects_host\<lparr>LiveLinkSubjectTypes := (\<lambda>tr. Some [''Mesh'', ''Camera''])\<rparr>"

text \<open>The same subjects, the second with a role that is not in the list of its type.\<close>

definition outside_role_host :: host where
  "outside_role_host =
    subjects_host\<lparr>LiveLinkSubjectRoles := (\<lambda>tr. Some [''Root Only'', ''Light''])\<rparr>"

text \<open>A host whose \<^verbatim>\<open>registerCommand\<close> raises for every command.\<close>

definition refusing_host :: host where
  "refusing_host = quiet_host\<lparr>registerCommand_raises := (\<lambda>tr n. True)\<rparr>"

text \<open>
  A host that refuses to register \<^verbatim>\<open>MayaLiveLinkRefreshUI\<close> and to deregister
  \<^verbatim>\<open>MayaLiveLinkUI\<close>, and no other command.
\<close>

definition selective_host :: host where
  "selective_host =
    quiet_host
      \<lparr>registerCommand_raises := (\<lambda>tr n. n = ''MayaLiveLinkRefreshUI''),
       deregisterCommand_raises := (\<lambda>tr n. n = ''MayaLiveLinkUI'')\<rparr>"

text \<open>
  A host whose stored endpoints are \<open>0.0.0.0:0\<close> and one static endpoint, and whose user
  types a new unicast endpoint and two static endpoints and presses Ok. Its interpreter
  iterates \<open>10.0.0.3:6666\<close> before the other strings of a set.
\<close>

definition editing_host :: host where
  "editing_host =
    quiet_host
      \<lparr>staticEndpoints_q := (\<lambda>tr. [''10.0.0.1:6666'']),
       dialog_user := (\<lambda>tr. ClickOk),
       textField_text :=
         (\<lambda>tr n. if n = ''control5'' then '' 127.0.0.1:7777 ''
                  else '' 10.0.0.2:6666 , 10.0.0.3:6666''),
       set_order := (\<lambda>xs x. if x = ''10.0.0.3:6666'' then 0 else 1)\<rparr>"

section \<open>Basic facts\<close>

subsection \<open>Issuing calls\<close>

lemma trace_issue [simp]: "trace (issue c s) = trace s @ [c]"
  by (simp add: issue_def)

lemma id_issue [simp]: "AfterPluginUnloadCallbackId (issue c s) = AfterPluginUnloadCallbackId s"
  by (simp add: issue_def)

lemma issue_all_Nil [simp]: "issue_all [] s = s"
  by (simp add: issue_all_def)

lemma issue_all_Cons [simp]: "issue_all (c # cs) s = issue_all cs (issue c s)"
  by (simp add: issue_all_def)

lemma issue_all_append: "issue_all (cs @ ds) s = issue_all ds (issue_all cs s)"
  by (simp add: issue_all_def)

lemma trace_issue_all [simp]: "trace (issue_all cs s) = trace s @ cs"
  by (induction cs arbitrary: s) simp_all

lemma id_issue_all [simp]:
  "AfterPluginUnloadCallbackId (issue_all cs s) = AfterPluginUnloadCallbackId s"
  by (induction cs arbitrary: s) simp_all

lemma issue_all_snoc: "issue c (issue_all cs s) = issue_all (cs @ [c]) s"
  by (simp add: issue_all_append)

subsection \<open>The loop of PopulateSubjects\<close>

lemma index_Some_iff:
  "index xs x = Some i \<longleftrightarrow> i < length xs \<and> xs ! i = x \<and> x \<notin> set (take i xs)"
proof (induction xs arbitrary: i)
  case Nil
  then show ?case by simp
next
  case (Cons y ys)
  show ?case
  proof (cases "y = x")
    case True
    then show ?thesis by (cases i) auto
  next
    case False
    then show ?thesis using Cons.IH by (cases i) auto
  qed
qed

lemma index_None_iff: "index xs x = None \<longleftrightarrow> x \<notin> set xs"
  by (induction xs) auto



lemma PopulateRow_valid:
  "valid_subject row \<Longrightarrow> PopulateRow RowCounter row s = Inr (issue_all (row_calls RowCounter row) s)"
  by (cases row)
     (auto simp: PopulateRow_def row_calls_def valid_subject_def Let_def issue_all_append
                 index_None_iff
           split: option.splits)

lemma PopulateRows_valid:
  "\<forall>row \<in> set rows. valid_subject row \<Longrightarrow>
     PopulateRows RowCounter rows s = Inr (issue_all (rows_calls RowCounter rows) s)"
  by (induction rows arbitrary: RowCounter s) (simp_all add: PopulateRow_valid issue_all_append)


lemma index_Some_in_set: "index xs x = Some i \<Longrightarrow> x \<in> set xs"
  by (metis index_None_iff option.distinct(1))

lemma PopulateRow_invalid:
  "\<not> valid_subject row \<Longrightarrow>
     PopulateRow RowCounter row s = Inl (row_error row, issue_all (row_calls RowCounter row) s)"
  by (cases row)
     (auto simp: PopulateRow_def row_calls_def valid_subject_def row_error_def Let_def
                 issue_all_append index_None_iff
           split: option.splits dest: index_Some_in_set)

lemma PopulateRows_first_invalid:
  "k < length rows \<Longrightarrow> \<not> valid_subject (rows ! k) \<Longrightarrow> \<forall>j < k. valid_subject (rows ! j) \<Longrightarrow>
     PopulateRows RowCounter rows s =
       Inl (row_error (rows ! k),
            issue_all (rows_calls RowCounter (take k rows) @ row_calls (RowCounter + k) (rows ! k)) s)"
proof (induction rows arbitrary: RowCounter s k)
  case Nil
  then show ?case by simp
next
  case (Cons row rows)
  show ?case
  proof (cases k)
    case 0
    with Cons.prems(2) show ?thesis by (simp add: PopulateRow_invalid)
  next
    case (Suc k')
    with Cons.prems have k': "k' < length rows" and i: "\<not> valid_subject (rows ! k')"
      and v: "valid_subject row"
      by auto
    have "\<forall>j < k'. valid_subject (rows ! j)"
    proof (intro allI impI)
      fix j assume "j < k'"
      with Cons.prems(3) Suc have "valid_subject ((row # rows) ! Suc j)" by auto
      then show "valid_subject (rows ! j)" by simp
    qed
    from Cons.IH [OF k' i this, of "RowCounter + 1" "issue_all (row_calls RowCounter row) s"]
    show ?thesis using Suc v by (simp add: PopulateRow_valid issue_all_append)
  qed
qed







subsection \<open>The example hosts\<close>

lemma quiet_host_simps:
  "window_exists quiet_host tr n = False"
  "LiveLinkSubjectPaths quiet_host tr = None"
  by (simp_all add: quiet_host_def)


lemma subjects_host_simps:
  "window_exists subjects_host tr n = (n = WindowName)"
  "LiveLinkSubjectNames subjects_host tr = Some [''Cube'', ''ShotCam'']"
  "LiveLinkSubjectPaths subjects_host tr = Some [''|pCube1'', ''|camera1'']"
  "LiveLinkSubjectTypes subjects_host tr = Some [''Prop'', ''Camera'']"
  "LiveLinkSubjectRoles subjects_host tr = Some [''Root Only'', ''Camera'']"
  by (simp_all add: subjects_host_def window_host_def quiet_host_def)

lemma outside_role_host_simps:
  "window_exists outside_role_host tr n = (n = WindowName)"
  "LiveLinkSubjectNames outside_role_host tr = Some [''Cube'', ''ShotCam'']"
  "LiveLinkSubjectPaths outside_role_host tr = Some [''|pCube1'', ''|camera1'']"
  "LiveLinkSubjectTypes outside_role_host tr = Some [''Prop'', ''Camera'']"
  "LiveLinkSubjectRoles outside_role_host tr = Some [''Root Only'', ''Light'']"
  by (simp_all add: outside_role_host_def subjects_host_def window_host_def quiet_host_def)

lemma unmapped_type_host_simps:
  "window_exists unmapped_type_host tr n = (n = WindowName)"
  "LiveLinkSubjectNames unmapped_type_host tr = Some [''Cube'', ''ShotCam'']"
  "LiveLinkSubjectPaths unmapped_type_host tr = Some [''|pCube1'', ''|camera1'']"
  "LiveLinkSubjectTypes unmapped_type_host tr = Some [''Mesh'', ''Camera'']"
  "LiveLinkSubjectRoles unmapped_type_host tr = Some [''Root Only'', ''Camera'']"
  by (simp_all add: unmapped_type_host_def subjects_host_def window_host_def quiet_host_def)

lemma StreamTypes_values:
  "StreamTypesPerSubjectType ''Prop'' = Some [''Root Only'', ''Full Hierarchy'']"
  "StreamTypesPerSubjectType ''Character'' = Some [''Root Only'', ''Full Hierarchy'']"
  "StreamTypesPerSubjectType ''Camera'' = Some [''Root Only'', ''Full Hierarchy'', ''Camera'']"
  "StreamTypesPerSubjectType ''Light'' = Some [''Root Only'', ''Full Hierarchy'', ''Light'']"
  "StreamTypesPerSubjectType ''Mesh'' = None"
  by (simp_all add: StreamTypesPerSubjectType_def StreamTypesPerSubjectType_items_def)

subsection \<open>Decimal numerals are injective\<close>

lemma digit_char_inj: "d < 10 \<Longrightarrow> e < 10 \<Longrightarrow> digit_char d = digit_char e \<Longrightarrow> d = e"
proof -
  assume a: "d < 10" "e < 10" "digit_char d = digit_char e"
  have "distinct ''0123456789''" by simp
  moreover have "length ''0123456789'' = 10" by simp
  ultimately show "d = e"
    using a unfolding digit_char_def by (metis nth_eq_iff_index_eq)
qed

lemma str_not_Nil: "str n \<noteq> []"
  by (subst str.simps) simp

lemma str_small: "n < 10 \<Longrightarrow> str n = [digit_char n]"
  by (subst str.simps) simp

lemma str_large: "\<not> n < 10 \<Longrightarrow> str n = str (n div 10) @ [digit_char (n mod 10)]"
  by (subst str.simps) simp

lemma str_inj: "str n = str m \<Longrightarrow> n = m"
proof (induction n arbitrary: m rule: str.induct)
  case (1 n)
  show ?case
  proof (cases "n < 10")
    case True
    then have n: "str n = [digit_char n]" by (rule str_small)
    show ?thesis
    proof (cases "m < 10")
      case mt: True
      then have "str m = [digit_char m]" by (rule str_small)
      with n "1.prems" have "digit_char n = digit_char m" by simp
      with True mt show ?thesis by (rule digit_char_inj)
    next
      case mf: False
      then have "str m = str (m div 10) @ [digit_char (m mod 10)]" by (rule str_large)
      with n "1.prems" have "str (m div 10) = []" by simp
      then show ?thesis by (simp add: str_not_Nil)
    qed
  next
    case False
    then have n: "str n = str (n div 10) @ [digit_char (n mod 10)]" by (rule str_large)
    show ?thesis
    proof (cases "m < 10")
      case mt: True
      then have "str m = [digit_char m]" by (rule str_small)
      with n "1.prems" have "str (n div 10) = []" by simp
      then show ?thesis by (simp add: str_not_Nil)
    next
      case mf: False
      then have m: "str m = str (m div 10) @ [digit_char (m mod 10)]" by (rule str_large)
      from n m "1.prems" have e: "str (n div 10) = str (m div 10)"
        and d: "digit_char (n mod 10) = digit_char (m mod 10)"
        by simp_all
      from "1.IH" [OF False e] have q: "n div 10 = m div 10" .
      from d have r: "n mod 10 = m mod 10"
        by (rule digit_char_inj [rotated 2]) simp_all
      from q r show ?thesis by (metis div_mult_mod_eq)
    qed
  qed
qed

lemma LayoutName_inj: "LayoutName n = LayoutName m \<Longrightarrow> n = m"
  by (simp add: LayoutName_def str_inj)

lemma distinct_LayoutNames: "distinct (map LayoutName [n..<k])"
  by (simp add: distinct_map inj_on_def LayoutName_inj)

lemma str_0: "str 0 = ''0''" and str_1: "str 1 = ''1''"
  by (simp_all add: str_small digit_char_def)

subsection \<open>The rows of a trace\<close>

lemma row_layouts_Nil [simp]: "row_layouts [] = []"
  by (simp add: row_layouts_def map_filter_def)

lemma row_layouts_append: "row_layouts (xs @ ys) = row_layouts xs @ row_layouts ys"
  by (simp add: row_layouts_def map_filter_def)

lemma row_layouts_menuItems: "row_layouts (map menuItem xs) = []"
  by (induction xs) (simp_all add: row_layouts_def map_filter_def menuItem_def)

lemma row_layouts_row_calls: "row_layouts (row_calls RowCounter row) = [LayoutName RowCounter]"
proof (cases row)
  case (fields SubjectName SubjectPath SubjectType SubjectRole)
  have c: "row_layouts (row_controls RowCounter row) = [LayoutName RowCounter]"
    by (simp add: fields row_controls_def row_layouts_def map_filter_def)
  have s: "row_layouts [optionMenu_select i] = []" for i
    by (simp add: optionMenu_select_def row_layouts_def map_filter_def)
  show ?thesis
    using c s by (simp add: fields row_calls_def row_layouts_append row_layouts_menuItems
        split: option.splits)
qed

lemma row_layouts_rows_calls:
  "row_layouts (rows_calls RowCounter rows) = map LayoutName [RowCounter ..< RowCounter + length rows]"
proof (induction rows arbitrary: RowCounter)
  case Nil
  then show ?case by (simp add: row_layouts_def map_filter_def)
next
  case (Cons row rows)
  have "[RowCounter ..< RowCounter + length (row # rows)]
        = RowCounter # [RowCounter + 1 ..< (RowCounter + 1) + length rows]"
    by (simp add: upt_rec)
  then show ?case
    using Cons.IH [of "RowCounter + 1"]
    by (simp only: rows_calls.simps row_layouts_append row_layouts_row_calls list.map append.simps)
qed

subsection \<open>Command classes\<close>

lemma IsLiveLinkCommand_total:
  "IsLiveLinkCommand CT InCls =
     Inr (isclass InCls \<and> issubclass CT InCls LiveLinkCommand = Inr True
          \<and> InCls \<noteq> LiveLinkCommand)"
  by (cases InCls) (auto simp: IsLiveLinkCommand_def LiveLinkCommand_def)

lemma GetLiveLinkCommandsFromModule_filter:
  "\<forall>Item \<in> set ModuleItems. env Item \<noteq> None \<Longrightarrow>
     GetLiveLinkCommandsFromModule CT env ModuleItems =
       Inr (filter (\<lambda>Command. IsLiveLinkCommand CT Command = Inr True)
              (List.map_filter env ModuleItems))"
proof (induction ModuleItems)
  case Nil
  then show ?case by (simp add: map_filter_simps)
next
  case (Cons Item ModuleItems)
  then obtain Command where c: "env Item = Some Command" by auto
  obtain keep where k: "IsLiveLinkCommand CT Command = Inr keep"
    using IsLiveLinkCommand_total by blast
  from Cons have "GetLiveLinkCommandsFromModule CT env ModuleItems =
       Inr (filter (\<lambda>Command. IsLiveLinkCommand CT Command = Inr True)
              (List.map_filter env ModuleItems))"
    by simp
  with c k show ?case by (simp add: map_filter_simps)
qed

lemmas class_ids =
  object_id_def MPxCommand_id_def LiveLinkCommand_id_def MayaLiveLinkUI_id_def
  MayaLiveLinkRefreshUI_id_def MayaLiveLinkRefreshConnectionUI_id_def Callback_id_def
  CallbackWithArgs_id_def

lemma module_classes_mro:
  "class_mro (module_classes LiveLinkCommand_id) = [2, 1, 0]"
  "class_mro (module_classes MayaLiveLinkUI_id) = [3, 2, 1, 0]"
  "class_mro (module_classes MayaLiveLinkRefreshUI_id) = [4, 2, 1, 0]"
  "class_mro (module_classes MayaLiveLinkRefreshConnectionUI_id) = [5, 2, 1, 0]"
  "class_mro (module_classes Callback_id) = [6, 0]"
  "class_mro (module_classes CallbackWithArgs_id) = [7, 6, 0]"
  by (simp_all add: module_classes_def classes_of_list_def module_classes_list_def class_ids)

lemma module_classes_name:
  "cls_name module_classes MayaLiveLinkUI = ''MayaLiveLinkUI''"
  "cls_name module_classes MayaLiveLinkRefreshUI = ''MayaLiveLinkRefreshUI''"
  "cls_name module_classes MayaLiveLinkRefreshConnectionUI = ''MayaLiveLinkRefreshConnectionUI''"
  by (simp_all add: module_classes_def classes_of_list_def module_classes_list_def class_ids
        MayaLiveLinkUI_def MayaLiveLinkRefreshUI_def MayaLiveLinkRefreshConnectionUI_def)

lemma IsLiveLinkCommand_values:
  "IsLiveLinkCommand CT (PyOther d) = Inr False"
  "IsLiveLinkCommand CT LiveLinkCommand = Inr False"
  "IsLiveLinkCommand module_classes MayaLiveLinkUI = Inr True"
  "IsLiveLinkCommand module_classes MayaLiveLinkRefreshUI = Inr True"
  "IsLiveLinkCommand module_classes MayaLiveLinkRefreshConnectionUI = Inr True"
  "IsLiveLinkCommand module_classes (PyClass Callback_id) = Inr False"
  "IsLiveLinkCommand module_classes (PyClass CallbackWithArgs_id) = Inr False"
  by (simp_all add: IsLiveLinkCommand_def LiveLinkCommand_def MayaLiveLinkUI_def
        MayaLiveLinkRefreshUI_def MayaLiveLinkRefreshConnectionUI_def module_classes_mro)
     (simp_all add: class_ids)

lemma Commands_value:
  "Commands = Inr [MayaLiveLinkRefreshConnectionUI, MayaLiveLinkRefreshUI, MayaLiveLinkUI]"
  unfolding Commands_def module_globals_def
  by (simp add: IsLiveLinkCommand_values)

lemma shadowing_classes_Foo:
  "class_name (shadowing_classes 8) = ''LiveLinkCommand''"
  "class_mro (shadowing_classes 9) = [9, 8, 0]"
  "IsLiveLinkCommand shadowing_classes (PyClass 9) = Inr False"
  by (simp_all add: IsLiveLinkCommand_def LiveLinkCommand_def shadowing_classes_def
        classes_of_list_def module_classes_list_def class_ids)

subsection \<open>Stripping and splitting\<close>

lemma isspace_comma: "\<not> isspace CHR '',''"
  by (simp add: isspace_def)

lemma strip_Cons_space: "isspace c \<Longrightarrow> strip (c # w) = strip w"
  by (simp add: strip_def)

lemma strip_snoc_space: "isspace c \<Longrightarrow> strip (w @ [c]) = strip w"
proof (cases "\<forall>x \<in> set w. isspace x")
  case True
  assume c: "isspace c"
  from True c have "\<forall>x \<in> set (w @ [c]). isspace x" by simp
  then have a: "dropWhile isspace (w @ [c]) = []" by (rule dropWhile_eq_Nil_conv [THEN iffD2])
  from True have b: "dropWhile isspace w = []" by (rule dropWhile_eq_Nil_conv [THEN iffD2])
  show ?thesis unfolding strip_def a b by simp
next
  case False
  assume c: "isspace c"
  from False obtain x where "x \<in> set w" "\<not> isspace x" by blast
  then have a: "dropWhile isspace (w @ [c]) = dropWhile isspace w @ [c]"
    by (rule dropWhile_append1)
  show ?thesis unfolding strip_def a using c by simp
qed

lemma split_not_Nil: "split cs sep \<noteq> []"
  by (induction cs) (simp_all add: Let_def)

lemma split_snoc:
  "c \<noteq> sep \<Longrightarrow> split (cs @ [c]) sep = butlast (split cs sep) @ [last (split cs sep) @ [c]]"
proof (induction cs)
  case Nil
  then show ?case by (simp add: Let_def)
next
  case (Cons x xs)
  obtain w ws where r: "split xs sep = w # ws"
    using split_not_Nil [of xs sep] by (cases "split xs sep") auto
  from Cons r show ?case
    by (cases ws) (simp_all add: Let_def)
qed

lemma map_strip_split_Cons_space:
  assumes "isspace c" and "c \<noteq> sep"
  shows "map strip (split (c # cs) sep) = map strip (split cs sep)"
proof -
  obtain w ws where r: "split cs sep = w # ws"
    using split_not_Nil [of cs sep] by (cases "split cs sep") auto
  with assms show ?thesis by (simp add: Let_def strip_Cons_space)
qed

lemma map_strip_split_snoc_space:
  assumes "isspace c" and "c \<noteq> sep"
  shows "map strip (split (cs @ [c]) sep) = map strip (split cs sep)"
proof -
  have "map strip (split (cs @ [c]) sep)
        = map strip (butlast (split cs sep)) @ [strip (last (split cs sep) @ [c])]"
    using assms(2) by (simp add: split_snoc)
  also have "\<dots> = map strip (butlast (split cs sep)) @ [strip (last (split cs sep))]"
    using assms(1) by (simp add: strip_snoc_space)
  also have "\<dots> = map strip (butlast (split cs sep) @ [last (split cs sep)])"
    by simp
  also have "\<dots> = map strip (split cs sep)"
    by (simp add: split_not_Nil)
  finally show ?thesis .
qed

lemma map_strip_split_dropWhile:
  "\<not> isspace sep \<Longrightarrow>
     map strip (split (dropWhile isspace t) sep) = map strip (split t sep)"
proof (induction t)
  case Nil
  then show ?case by simp
next
  case (Cons c cs)
  show ?case
  proof (cases "isspace c")
    case True
    with Cons.prems have n: "c \<noteq> sep" by auto
    have "map strip (split (dropWhile isspace (c # cs)) sep)
          = map strip (split (dropWhile isspace cs) sep)"
      using True by simp
    also have "\<dots> = map strip (split cs sep)"
      using Cons by simp
    also have "\<dots> = map strip (split (c # cs) sep)"
      using map_strip_split_Cons_space [OF True n] by simp
    finally show ?thesis .
  next
    case False
    then show ?thesis by simp
  qed
qed

lemma map_strip_split_dropWhile_end:
  "\<not> isspace sep \<Longrightarrow>
     map strip (split (rev (dropWhile isspace (rev t))) sep) = map strip (split t sep)"
proof (induction t rule: rev_induct)
  case Nil
  then show ?case by simp
next
  case (snoc c cs)
  show ?case
  proof (cases "isspace c")
    case True
    with snoc.prems have "c \<noteq> sep" by auto
    with True snoc show ?thesis
      by (simp add: map_strip_split_snoc_space)
  next
    case False
    then show ?thesis by simp
  qed
qed

lemma map_strip_split_strip:
  "\<not> isspace sep \<Longrightarrow> map strip (split (strip t) sep) = map strip (split t sep)"
proof -
  assume n: "\<not> isspace sep"
  have "map strip (split (strip t) sep)
        = map strip (split (rev (dropWhile isspace (rev (dropWhile isspace t)))) sep)"
    by (simp add: strip_def)
  also have "\<dots> = map strip (split (dropWhile isspace t) sep)"
    using n by (rule map_strip_split_dropWhile_end)
  also have "\<dots> = map strip (split t sep)"
    using n by (rule map_strip_split_dropWhile)
  finally show ?thesis .
qed

lemma editing_host_simps:
  "textField_text editing_host tr ''control5'' = '' 127.0.0.1:7777 ''"
  "textField_text editing_host tr ''control7'' = '' 10.0.0.2:6666 , 10.0.0.3:6666''"
  "dialog_user editing_host tr = ClickOk"
  "unicastEndpoint_q editing_host tr = ''0.0.0.0:0''"
  "staticEndpoints_q editing_host tr = [''10.0.0.1:6666'']"
  "setParent_q editing_host tr = ''layoutDialogForm''"
  "returned editing_host tr = ''control'' @ str (length tr)"
  "set_order editing_host xs x = (if x = ''10.0.0.3:6666'' then 0 else 1)"
  by (simp_all add: editing_host_def quiet_host_def)

lemma strip_examples:
  "strip '' 127.0.0.1:7777 '' = ''127.0.0.1:7777''"
  "strip '' 10.0.0.2:6666 , 10.0.0.3:6666'' = ''10.0.0.2:6666 , 10.0.0.3:6666''"
  "map strip (split '' 10.0.0.2:6666 , 10.0.0.3:6666'' CHR '','')
     = [''10.0.0.2:6666'', ''10.0.0.3:6666'']"
  "strip [] = []"
  by (simp_all add: strip_def isspace_def)

subsection \<open>The endpoints dialog\<close>

lemma set_list_set_minus: "set (list_set_minus H xs ys) = set xs - set ys"
  by (auto simp: list_set_minus_def Let_def)

lemma distinct_list_set_minus: "distinct (list_set_minus H xs ys)"
  by (simp add: list_set_minus_def Let_def)

lemma list_set_minus_Nil_iff: "list_set_minus H xs ys = [] \<longleftrightarrow> set xs - set ys = {}"
  using set_list_set_minus [of H xs ys] by (metis set_empty)

text \<open>Every order of a set is the iteration order of some host.\<close>

lemma index_nth_distinct: "distinct zs \<Longrightarrow> i < length zs \<Longrightarrow> index zs (zs ! i) = Some i"
proof -
  assume d: "distinct zs" and i: "i < length zs"
  have "zs ! i \<notin> set (take i zs)"
  proof
    assume "zs ! i \<in> set (take i zs)"
    then obtain j where j: "j < length (take i zs)" "take i zs ! j = zs ! i"
      by (auto simp: in_set_conv_nth)
    then have "j < i" "zs ! j = zs ! i" using i by simp_all
    with d i show False by (simp add: nth_eq_iff_index_eq)
  qed
  with i show ?thesis by (simp add: index_Some_iff)
qed

lemma sort_key_rank_unique:
  assumes "distinct zs" and "distinct d" and "set d = set zs"
  shows "sort_key (\<lambda>x. case index zs x of Some i \<Rightarrow> i | None \<Rightarrow> 0) d = zs"
proof -
  let ?rank = "\<lambda>x. case index zs x of Some i \<Rightarrow> i | None \<Rightarrow> (0::nat)"
  have r: "?rank (zs ! i) = i" if "i < length zs" for i
    using assms(1) that by (simp add: index_nth_distinct)
  have inj: "inj_on ?rank (set zs)"
  proof (rule inj_onI)
    fix x y assume "x \<in> set zs" "y \<in> set zs" and e: "?rank x = ?rank y"
    then obtain i j where "i < length zs" "zs ! i = x" "j < length zs" "zs ! j = y"
      by (auto simp: in_set_conv_nth)
    with e r show "x = y" by metis
  qed
  have m: "map ?rank zs = [0 ..< length zs]"
    by (rule nth_equalityI) (simp_all add: r)
  have s1: "sorted (map ?rank (sort_key ?rank d))" by (rule sorted_sort_key)
  have d1: "distinct (map ?rank (sort_key ?rank d))"
    using assms(2,3) inj by (simp add: distinct_map)
  have s2: "sorted (map ?rank zs)" and d2: "distinct (map ?rank zs)"
    by (simp_all add: m)
  have e: "set (map ?rank (sort_key ?rank d)) = set (map ?rank zs)"
    using assms(3) by simp
  from s1 d1 s2 d2 e have "map ?rank (sort_key ?rank d) = map ?rank zs"
    by (rule sorted_distinct_set_unique)
  moreover have "inj_on ?rank (set (sort_key ?rank d) \<union> set zs)"
    using inj assms(3) by simp
  ultimately show ?thesis by (simp add: inj_on_map_eq_map)
qed

lemma list_set_minus_any_order:
  assumes "distinct zs" and "set zs = set xs - set ys"
  shows "\<exists>H. list_set_minus H xs ys = zs"
proof -
  let ?rank = "\<lambda>x. case index zs x of Some i \<Rightarrow> i | None \<Rightarrow> (0::nat)"
  let ?H = "quiet_host\<lparr>set_order := (\<lambda>d. ?rank)\<rparr>"
  let ?d = "remdups (filter (\<lambda>x. x \<notin> set ys) xs)"
  have "set ?d = set zs" using assms(2) by auto
  with assms(1) have "sort_key ?rank ?d = zs"
    by (intro sort_key_rank_unique) simp_all
  then have "list_set_minus ?H xs ys = zs"
    by (simp add: list_set_minus_def Let_def)
  then show ?thesis by blast
qed

lemma CreateUI_trace:
  "\<exists>ui. trace (snd (CreateUI H UnicastEndpoint StaticEndpoints s)) = trace s @ ui
        \<and> filter is_MessagingSettings ui = []"
  by (simp add: CreateUI_def Let_def)

lemma layoutDialog_result:
  assumes "layoutDialog H UnicastEndpoint StaticEndpoints s = (result, s1)"
  shows "(result = S [] \<or> (\<exists>d. result = Json d))
         \<and> filter is_MessagingSettings (trace s1) = filter is_MessagingSettings (trace s)"
proof -
  let ?s0 = "issue (Cmd ''layoutDialog'' []
                 [(''ui'', Cb Closure_CreateUI), (''title'', S ''Set Network Endpoints'')]) s"
  obtain uf sf s2 where c: "CreateUI H UnicastEndpoint StaticEndpoints ?s0 = ((uf, sf), s2)"
    by (metis prod.exhaust)
  obtain ui where ui: "trace s2 = trace ?s0 @ ui" "filter is_MessagingSettings ui = []"
    using CreateUI_trace [of H UnicastEndpoint StaticEndpoints ?s0] c by auto
  show ?thesis
  proof (cases "dialog_user H (trace s2)")
    case ClickCancel
    with assms c ui show ?thesis
      by (auto simp: layoutDialog_def OnCancel_def)
  next
    case ClickOk
    with assms c ui show ?thesis
      by (auto simp: layoutDialog_def OnOk_def Let_def)
  qed
qed

lemma editing_host_fields:
  "fst (CreateUI editing_host U St (issue c initial_state)) = (''control5'', ''control7'')"
  by (simp add: CreateUI_def Let_def editing_host_simps initial_state_def str_small digit_char_def)

lemma editing_host_dialog:
  "fst (layoutDialog editing_host U St initial_state) =
     Json \<lparr>unicast = ''127.0.0.1:7777'', static = [''10.0.0.2:6666'', ''10.0.0.3:6666'']\<rparr>"
proof -
  let ?s0 = "issue (Cmd ''layoutDialog'' []
                 [(''ui'', Cb Closure_CreateUI), (''title'', S ''Set Network Endpoints'')]) initial_state"
  obtain s2 where c: "CreateUI editing_host U St ?s0 = ((''control5'', ''control7''), s2)"
    using editing_host_fields [of U St] by (metis prod.collapse)
  show ?thesis
    by (simp add: layoutDialog_def c editing_host_simps OnOk_def OnOk_dict_def Let_def
          strip_def isspace_def)
qed

subsection \<open>The registration loops\<close>

lemma register_raises_at_0:
  "register_raises_at H CT tr (Command # Cmds) 0 =
     registerCommand_raises H (tr @ [Print (registering_message (cls_name CT Command))])
       (cls_name CT Command)"
  by (simp add: register_raises_at_def)

lemma register_raises_at_Suc:
  "register_raises_at H CT tr (Command # Cmds) (Suc k) =
     register_raises_at H CT (tr @ register_calls CT Command) Cmds k"
  by (simp add: register_raises_at_def)

lemma register_loop_ok:
  "\<forall>k < length Cmds. \<not> register_raises_at H CT (trace s) Cmds k \<Longrightarrow>
     register_loop H CT Cmds s = Inr (issue_all (concat (map (register_calls CT) Cmds)) s)"
proof (induction Cmds arbitrary: s)
  case Nil
  then show ?case by simp
next
  case (Cons Command Cmds)
  let ?s2 = "issue_all (register_calls CT Command) s"
  from Cons.prems have n: "\<not> register_raises_at H CT (trace s) (Command # Cmds) 0"
    by (simp del: register_raises_at_0)
  have "\<forall>k < length Cmds. \<not> register_raises_at H CT (trace ?s2) Cmds k"
  proof (intro allI impI)
    fix k assume "k < length Cmds"
    with Cons.prems have "\<not> register_raises_at H CT (trace s) (Command # Cmds) (Suc k)"
      by auto
    then show "\<not> register_raises_at H CT (trace ?s2) Cmds k"
      by (simp add: register_raises_at_Suc)
  qed
  from Cons.IH [OF this] n show ?case
    by (simp add: register_raises_at_0 Let_def register_calls_def)
qed

lemma register_loop_first_raise:
  "k < length Cmds \<Longrightarrow> register_raises_at H CT (trace s) Cmds k \<Longrightarrow>
   \<forall>j < k. \<not> register_raises_at H CT (trace s) Cmds j \<Longrightarrow>
     register_loop H CT Cmds s =
       Inl (HostException ''registerCommand'',
            issue_all (concat (map (register_calls CT) (take k Cmds))
                       @ register_calls CT (Cmds ! k)
                       @ [StderrWrite (register_failed_message (cls_name CT (Cmds ! k)))]) s)"
proof (induction Cmds arbitrary: s k)
  case Nil
  then show ?case by simp
next
  case (Cons Command Cmds)
  let ?s2 = "issue_all (register_calls CT Command) s"
  show ?case
  proof (cases k)
    case 0
    with Cons.prems(2) show ?thesis
      by (simp add: register_raises_at_0 Let_def register_calls_def)
  next
    case (Suc k')
    with Cons.prems have k': "k' < length Cmds"
      and r: "register_raises_at H CT (trace ?s2) Cmds k'"
      and n0: "\<not> register_raises_at H CT (trace s) (Command # Cmds) 0"
      by (simp_all add: register_raises_at_Suc del: register_raises_at_0)
    have "\<forall>j < k'. \<not> register_raises_at H CT (trace ?s2) Cmds j"
    proof (intro allI impI)
      fix j assume "j < k'"
      with Cons.prems(3) Suc
      have "\<not> register_raises_at H CT (trace s) (Command # Cmds) (Suc j)" by auto
      then show "\<not> register_raises_at H CT (trace ?s2) Cmds j"
        by (simp add: register_raises_at_Suc)
    qed
    from Cons.IH [OF k' r this] n0 Suc show ?thesis
      by (simp add: register_raises_at_0 Let_def register_calls_def issue_all_append)
  qed
qed

lemma deregister_passes_Nil [simp]: "deregister_passes CT [] raised = []"
  by (simp add: deregister_passes_def)

lemma deregister_passes_Cons [simp]:
  "deregister_passes CT (Command # Cmds) (r # raised) =
     deregister_calls CT Command r @ deregister_passes CT Cmds raised"
  by (simp add: deregister_passes_def)

lemma filter_deregister_passes:
  "length raised = length Cmds \<Longrightarrow>
     filter (\<lambda>c. \<not> is_StderrWrite c) (deregister_passes CT Cmds raised)
       = map (\<lambda>Command. DeregisterCommand (cls_name CT Command)) Cmds"
proof (induction Cmds arbitrary: raised)
  case Nil
  then show ?case by simp
next
  case (Cons Command Cmds)
  then obtain r rs where "raised = r # rs" "length rs = length Cmds"
    by (cases raised) auto
  with Cons.IH [of rs] show ?case by (simp add: deregister_calls_def)
qed

lemma deregister_loop_passes:
  "\<exists>raised. length raised = length Cmds
     \<and> deregister_loop H CT Cmds s = issue_all (deregister_passes CT Cmds raised) s
     \<and> (\<forall>k < length Cmds.
           raised ! k =
             deregisterCommand_raises H
               (trace s @ deregister_passes CT (take k Cmds) (take k raised))
               (cls_name CT (Cmds ! k)))"
proof (induction Cmds arbitrary: s)
  case Nil
  then show ?case by simp
next
  case (Cons Command Cmds)
  let ?r = "deregisterCommand_raises H (trace s) (cls_name CT Command)"
  let ?s' = "issue_all (deregister_calls CT Command ?r) s"
  have step: "deregister_loop H CT (Command # Cmds) s = deregister_loop H CT Cmds ?s'"
    by (simp add: Let_def deregister_calls_def)
  from Cons.IH [of ?s'] obtain raised where
    l: "length raised = length Cmds"
    and e: "deregister_loop H CT Cmds ?s' = issue_all (deregister_passes CT Cmds raised) ?s'"
    and a: "\<forall>k < length Cmds.
           raised ! k =
             deregisterCommand_raises H
               (trace ?s' @ deregister_passes CT (take k Cmds) (take k raised))
               (cls_name CT (Cmds ! k))"
    by blast
  have "\<forall>k < length (Command # Cmds).
           (?r # raised) ! k =
             deregisterCommand_raises H
               (trace s @ deregister_passes CT (take k (Command # Cmds)) (take k (?r # raised)))
               (cls_name CT ((Command # Cmds) ! k))"
  proof (intro allI impI)
    fix k assume k: "k < length (Command # Cmds)"
    show "(?r # raised) ! k =
             deregisterCommand_raises H
               (trace s @ deregister_passes CT (take k (Command # Cmds)) (take k (?r # raised)))
               (cls_name CT ((Command # Cmds) ! k))"
    proof (cases k)
      case 0
      then show ?thesis by simp
    next
      case (Suc k')
      with k a have "raised ! k' =
             deregisterCommand_raises H
               (trace ?s' @ deregister_passes CT (take k' Cmds) (take k' raised))
               (cls_name CT (Cmds ! k'))"
        by simp
      with Suc show ?thesis by simp
    qed
  qed
  moreover have "length (?r # raised) = length (Command # Cmds)" using l by simp
  moreover have "deregister_loop H CT (Command # Cmds) s
                 = issue_all (deregister_passes CT (Command # Cmds) (?r # raised)) s"
    using step e by (simp add: issue_all_append)
  ultimately show ?case by blast
qed

section \<open>The stream-type table\<close>

text \<open>
  Claim C3. The stream-type table maps exactly the four subject types Prop, Character,
  Camera and Light; every list it holds is non-empty and contains "Root Only" and
  "Full Hierarchy"; the list of Camera also contains "Camera" and the list of Light also
  contains "Light".
\<close>

theorem StreamTypesPerSubjectType_table:
  "dom StreamTypesPerSubjectType = {''Prop'', ''Character'', ''Camera'', ''Light''}
   \<and> (\<forall>t ts. StreamTypesPerSubjectType t = Some ts \<longrightarrow>
          ts \<noteq> [] \<and> ''Root Only'' \<in> set ts \<and> ''Full Hierarchy'' \<in> set ts)
   \<and> (\<exists>ts. StreamTypesPerSubjectType ''Camera'' = Some ts \<and> ''Camera'' \<in> set ts)
   \<and> (\<exists>ts. StreamTypesPerSubjectType ''Light'' = Some ts \<and> ''Light'' \<in> set ts)"
proof -
  have d: "dom StreamTypesPerSubjectType = {''Prop'', ''Character'', ''Camera'', ''Light''}"
    unfolding StreamTypesPerSubjectType_def StreamTypesPerSubjectType_items_def
    by (simp add: dom_map_of_conv_image_fst insert_commute)
  have a: "\<forall>t ts. StreamTypesPerSubjectType t = Some ts \<longrightarrow>
          ts \<noteq> [] \<and> ''Root Only'' \<in> set ts \<and> ''Full Hierarchy'' \<in> set ts"
    unfolding StreamTypesPerSubjectType_def StreamTypesPerSubjectType_items_def
    by (auto split: if_splits)
  have c: "StreamTypesPerSubjectType ''Camera'' = Some [''Root Only'', ''Full Hierarchy'', ''Camera'']"
    unfolding StreamTypesPerSubjectType_def StreamTypesPerSubjectType_items_def by simp
  have l: "StreamTypesPerSubjectType ''Light'' = Some [''Root Only'', ''Full Hierarchy'', ''Light'']"
    unfolding StreamTypesPerSubjectType_def StreamTypesPerSubjectType_items_def by simp
  from d a c l show ?thesis by simp
qed

theorem StreamTypesPerSubjectType_table_witness:
  "StreamTypesPerSubjectType ''Camera'' = Some [''Root Only'', ''Full Hierarchy'', ''Camera'']
   \<and> [''Root Only'', ''Full Hierarchy'', ''Camera''] \<noteq> []
   \<and> ''Root Only'' \<in> set [''Root Only'', ''Full Hierarchy'', ''Camera'']
   \<and> ''Full Hierarchy'' \<in> set [''Root Only'', ''Full Hierarchy'', ''Camera'']
   \<and> ''Prop'' \<in> dom StreamTypesPerSubjectType"
proof -
  have c: "StreamTypesPerSubjectType ''Camera'' = Some [''Root Only'', ''Full Hierarchy'', ''Camera'']"
    unfolding StreamTypesPerSubjectType_def StreamTypesPerSubjectType_items_def by simp
  from StreamTypesPerSubjectType_table have
    "StreamTypesPerSubjectType ''Camera'' = Some [''Root Only'', ''Full Hierarchy'', ''Camera''] \<longrightarrow>
       [''Root Only'', ''Full Hierarchy'', ''Camera''] \<noteq> []
       \<and> ''Root Only'' \<in> set [''Root Only'', ''Full Hierarchy'', ''Camera'']
       \<and> ''Full Hierarchy'' \<in> set [''Root Only'', ''Full Hierarchy'', ''Camera'']"
    and "dom StreamTypesPerSubjectType = {''Prop'', ''Character'', ''Camera'', ''Light''}"
    by blast+
  with c show ?thesis by simp
qed

section \<open>Refreshing the subject table\<close>

text \<open>
  Claim C9. When the main window does not exist, CreateSubjectTable, ClearSubjects,
  RefreshSubjects and the doIt of MayaLiveLinkRefreshConnectionUI issue no call and return
  the state they were given.
\<close>

theorem no_window_no_call:
  "\<not> window_exists H (trace s) WindowName \<Longrightarrow>
     CreateSubjectTable H s = s \<and> ClearSubjects H s = s \<and> RefreshSubjects H s = Inr s
     \<and> MayaLiveLinkRefreshConnectionUI_doIt H s = s"
  by (simp add: CreateSubjectTable_def ClearSubjects_def RefreshSubjects_def
        MayaLiveLinkRefreshConnectionUI_doIt_def)

theorem no_window_no_call_witness:
  "\<not> window_exists quiet_host (trace initial_state) WindowName
   \<and> CreateSubjectTable quiet_host initial_state = initial_state
   \<and> ClearSubjects quiet_host initial_state = initial_state
   \<and> RefreshSubjects quiet_host initial_state = Inr initial_state
   \<and> MayaLiveLinkRefreshConnectionUI_doIt quiet_host initial_state = initial_state"
proof -
  have h: "\<not> window_exists quiet_host (trace initial_state) WindowName"
    by (simp add: quiet_host_simps)
  from h no_window_no_call [OF h] show ?thesis by simp
qed





section \<open>Populating the subject table\<close>



text \<open>
  Claim C10, as amended. PopulateSubjects creates no row when the subject-paths query
  returns None. When the four queries return lists and every zipped subject has a type the
  stream-type table maps and a role in that type's list, it returns after creating one row
  per position of the zipped lists, as many as the shortest list has elements; the rows'
  layouts are named ColumnLayoutRow_0, ColumnLayoutRow_1, ... in order, and these names are
  distinct. When the subject at position k is the first whose type the table does not map
  or whose role is not in the list of its type, the loop raises in the pass for that
  subject, KeyError for the type and ValueError for the role: the rows of the positions up
  to k have been created, the last without its selection, and no later row is created.
\<close>

theorem PopulateSubjects_rows:
  "(LiveLinkSubjectPaths H (trace s) = None \<longrightarrow> PopulateSubjects H s = Inr s)
   \<and> (LiveLinkSubjectNames H (trace s) = Some SubjectNames
        \<and> LiveLinkSubjectPaths H (trace s) = Some SubjectPaths
        \<and> LiveLinkSubjectTypes H (trace s) = Some SubjectTypes
        \<and> LiveLinkSubjectRoles H (trace s) = Some SubjectRoles
        \<and> (\<forall>row \<in> set (zip SubjectNames (zip SubjectPaths (zip SubjectTypes SubjectRoles))).
              valid_subject row) \<longrightarrow>
       (\<exists>s'. PopulateSubjects H s = Inr s'
          \<and> trace s' =
              trace s @ rows_calls 0 (zip SubjectNames (zip SubjectPaths (zip SubjectTypes SubjectRoles)))
          \<and> row_layouts (trace s') =
              row_layouts (trace s) @
              map LayoutName
                [0 ..< min (length SubjectNames) (min (length SubjectPaths)
                         (min (length SubjectTypes) (length SubjectRoles)))]
          \<and> distinct (map LayoutName
                [0 ..< min (length SubjectNames) (min (length SubjectPaths)
                         (min (length SubjectTypes) (length SubjectRoles)))])))
   \<and> (LiveLinkSubjectNames H (trace s) = Some SubjectNames
        \<and> LiveLinkSubjectPaths H (trace s) = Some SubjectPaths
        \<and> LiveLinkSubjectTypes H (trace s) = Some SubjectTypes
        \<and> LiveLinkSubjectRoles H (trace s) = Some SubjectRoles
        \<and> rows = zip SubjectNames (zip SubjectPaths (zip SubjectTypes SubjectRoles))
        \<and> k < length rows \<and> \<not> valid_subject (rows ! k)
        \<and> (\<forall>j < k. valid_subject (rows ! j)) \<longrightarrow>
       PopulateSubjects H s =
         Inl (row_error (rows ! k),
              issue_all (rows_calls 0 (take k rows) @ row_calls k (rows ! k)) s)
       \<and> row_layouts (trace (result_state (PopulateSubjects H s))) =
            row_layouts (trace s) @ map LayoutName [0 ..< Suc k])"
proof (intro conjI impI)
  assume "LiveLinkSubjectPaths H (trace s) = None"
  then show "PopulateSubjects H s = Inr s"
    by (simp add: PopulateSubjects_def)
next
  let ?rows = "zip SubjectNames (zip SubjectPaths (zip SubjectTypes SubjectRoles))"
  let ?n = "min (length SubjectNames) (min (length SubjectPaths)
                         (min (length SubjectTypes) (length SubjectRoles)))"
  assume a: "LiveLinkSubjectNames H (trace s) = Some SubjectNames
        \<and> LiveLinkSubjectPaths H (trace s) = Some SubjectPaths
        \<and> LiveLinkSubjectTypes H (trace s) = Some SubjectTypes
        \<and> LiveLinkSubjectRoles H (trace s) = Some SubjectRoles
        \<and> (\<forall>row \<in> set ?rows. valid_subject row)"
  then have "PopulateSubjects H s = PopulateRows 0 ?rows s"
    by (simp add: PopulateSubjects_def zip4_def)
  with a have p: "PopulateSubjects H s = Inr (issue_all (rows_calls 0 ?rows) s)"
    by (simp add: PopulateRows_valid)
  have l: "length ?rows = ?n" by simp
  have r: "row_layouts (trace (issue_all (rows_calls 0 ?rows) s)) =
             row_layouts (trace s) @ map LayoutName [0 ..< ?n]"
    using row_layouts_rows_calls [of 0 ?rows] l
    by (simp only: trace_issue_all row_layouts_append add_0)
  show "\<exists>s'. PopulateSubjects H s = Inr s'
          \<and> trace s' = trace s @ rows_calls 0 ?rows
          \<and> row_layouts (trace s') = row_layouts (trace s) @ map LayoutName [0 ..< ?n]
          \<and> distinct (map LayoutName [0 ..< ?n])"
    using p r distinct_LayoutNames [of 0 ?n] by simp
next
  assume a: "LiveLinkSubjectNames H (trace s) = Some SubjectNames
        \<and> LiveLinkSubjectPaths H (trace s) = Some SubjectPaths
        \<and> LiveLinkSubjectTypes H (trace s) = Some SubjectTypes
        \<and> LiveLinkSubjectRoles H (trace s) = Some SubjectRoles
        \<and> rows = zip SubjectNames (zip SubjectPaths (zip SubjectTypes SubjectRoles))
        \<and> k < length rows \<and> \<not> valid_subject (rows ! k)
        \<and> (\<forall>j < k. valid_subject (rows ! j))"
  then have "PopulateSubjects H s = PopulateRows 0 rows s"
    by (simp add: PopulateSubjects_def zip4_def)
  moreover from a have k: "k < length rows" and i: "\<not> valid_subject (rows ! k)"
    and v: "\<forall>j < k. valid_subject (rows ! j)"
    by blast+
  from k i v have "PopulateRows 0 rows s =
       Inl (row_error (rows ! k),
            issue_all (rows_calls 0 (take k rows) @ row_calls (0 + k) (rows ! k)) s)"
    by (rule PopulateRows_first_invalid)
  ultimately have p: "PopulateSubjects H s =
         Inl (row_error (rows ! k),
              issue_all (rows_calls 0 (take k rows) @ row_calls k (rows ! k)) s)"
    by simp
  from k have "length (take k rows) = k" by simp
  then have "row_layouts (rows_calls 0 (take k rows) @ row_calls k (rows ! k))
             = map LayoutName [0 ..< Suc k]"
    using row_layouts_rows_calls [of 0 "take k rows"]
    by (simp add: row_layouts_append row_layouts_row_calls)
  with p have r: "row_layouts (trace (result_state (PopulateSubjects H s))) =
            row_layouts (trace s) @ map LayoutName [0 ..< Suc k]"
    by (simp add: row_layouts_append)
  from p show "PopulateSubjects H s =
         Inl (row_error (rows ! k),
              issue_all (rows_calls 0 (take k rows) @ row_calls k (rows ! k)) s)" .
  from r show "row_layouts (trace (result_state (PopulateSubjects H s))) =
            row_layouts (trace s) @ map LayoutName [0 ..< Suc k]" .
qed

theorem PopulateSubjects_rows_witness:
  "LiveLinkSubjectNames subjects_host (trace initial_state) = Some [''Cube'', ''ShotCam'']
   \<and> LiveLinkSubjectPaths subjects_host (trace initial_state) = Some [''|pCube1'', ''|camera1'']
   \<and> LiveLinkSubjectTypes subjects_host (trace initial_state) = Some [''Prop'', ''Camera'']
   \<and> LiveLinkSubjectRoles subjects_host (trace initial_state) = Some [''Root Only'', ''Camera'']
   \<and> valid_subject (''Cube'', ''|pCube1'', ''Prop'', ''Root Only'')
   \<and> valid_subject (''ShotCam'', ''|camera1'', ''Camera'', ''Camera'')
   \<and> row_layouts (trace (result_state (PopulateSubjects subjects_host initial_state)))
       = [''ColumnLayoutRow_0'', ''ColumnLayoutRow_1'']
   \<and> LiveLinkSubjectPaths quiet_host (trace initial_state) = None
   \<and> PopulateSubjects quiet_host initial_state = Inr initial_state
   \<and> LiveLinkSubjectRoles outside_role_host (trace initial_state) = Some [''Root Only'', ''Light'']
   \<and> \<not> valid_subject (''ShotCam'', ''|camera1'', ''Camera'', ''Light'')
   \<and> PopulateSubjects outside_role_host initial_state =
        Inl (ValueError,
             issue_all (row_calls 0 (''Cube'', ''|pCube1'', ''Prop'', ''Root Only'')
                        @ row_calls 1 (''ShotCam'', ''|camera1'', ''Camera'', ''Light''))
               initial_state)
   \<and> row_layouts (trace (result_state (PopulateSubjects outside_role_host initial_state)))
       = [''ColumnLayoutRow_0'', ''ColumnLayoutRow_1'']"
proof -
  have v: "valid_subject (''Cube'', ''|pCube1'', ''Prop'', ''Root Only'')"
          "valid_subject (''ShotCam'', ''|camera1'', ''Camera'', ''Camera'')"
    by (simp_all add: valid_subject_def StreamTypes_values)
  have h: "LiveLinkSubjectNames subjects_host (trace initial_state) = Some [''Cube'', ''ShotCam'']
        \<and> LiveLinkSubjectPaths subjects_host (trace initial_state) = Some [''|pCube1'', ''|camera1'']
        \<and> LiveLinkSubjectTypes subjects_host (trace initial_state) = Some [''Prop'', ''Camera'']
        \<and> LiveLinkSubjectRoles subjects_host (trace initial_state) = Some [''Root Only'', ''Camera'']
        \<and> (\<forall>row \<in> set (zip [''Cube'', ''ShotCam''] (zip [''|pCube1'', ''|camera1'']
                (zip [''Prop'', ''Camera''] [''Root Only'', ''Camera'']))). valid_subject row)"
    using v by (simp add: subjects_host_simps)
  from PopulateSubjects_rows [of subjects_host initial_state "[''Cube'', ''ShotCam'']"
         "[''|pCube1'', ''|camera1'']" "[''Prop'', ''Camera'']" "[''Root Only'', ''Camera'']",
         THEN conjunct2, THEN conjunct1, THEN mp, OF h]
  obtain s' where s': "PopulateSubjects subjects_host initial_state = Inr s'"
    "row_layouts (trace s') = row_layouts (trace initial_state) @
       map LayoutName [0 ..< min (length [''Cube'', ''ShotCam'']) (min (length [''|pCube1'', ''|camera1''])
          (min (length [''Prop'', ''Camera'']) (length [''Root Only'', ''Camera''])))]"
    by blast
  have u: "[0 ..< (2::nat)] = [0, 1]" by (simp add: upt_rec)
  have str_Suc_0: "str (Suc 0) = ''1''" using str_1 by simp
  from s' have r: "row_layouts (trace (result_state (PopulateSubjects subjects_host initial_state)))
       = [''ColumnLayoutRow_0'', ''ColumnLayoutRow_1'']"
    by (simp add: initial_state_def u LayoutName_def str_0 str_Suc_0)
  have q: "LiveLinkSubjectPaths quiet_host (trace initial_state) = None"
    by (simp add: quiet_host_simps)
  from PopulateSubjects_rows [of quiet_host initial_state, THEN conjunct1, THEN mp, OF q]
  have e: "PopulateSubjects quiet_host initial_state = Inr initial_state" .
  let ?rows = "[(''Cube'', ''|pCube1'', ''Prop'', ''Root Only''),
                (''ShotCam'', ''|camera1'', ''Camera'', ''Light'')]"
  have w: "\<not> valid_subject (''ShotCam'', ''|camera1'', ''Camera'', ''Light'')"
    by (simp add: valid_subject_def StreamTypes_values)
  have g: "LiveLinkSubjectNames outside_role_host (trace initial_state) = Some [''Cube'', ''ShotCam'']
        \<and> LiveLinkSubjectPaths outside_role_host (trace initial_state)
            = Some [''|pCube1'', ''|camera1'']
        \<and> LiveLinkSubjectTypes outside_role_host (trace initial_state) = Some [''Prop'', ''Camera'']
        \<and> LiveLinkSubjectRoles outside_role_host (trace initial_state)
            = Some [''Root Only'', ''Light'']
        \<and> ?rows = zip [''Cube'', ''ShotCam''] (zip [''|pCube1'', ''|camera1'']
                (zip [''Prop'', ''Camera''] [''Root Only'', ''Light'']))
        \<and> 1 < length ?rows \<and> \<not> valid_subject (?rows ! 1)
        \<and> (\<forall>j < 1. valid_subject (?rows ! j))"
    using v(1) w by (simp add: outside_role_host_simps)
  from PopulateSubjects_rows [of outside_role_host initial_state "[''Cube'', ''ShotCam'']"
         "[''|pCube1'', ''|camera1'']" "[''Prop'', ''Camera'']" "[''Root Only'', ''Light'']"
         ?rows 1, THEN conjunct2, THEN conjunct2, THEN mp, OF g]
  have x: "PopulateSubjects outside_role_host initial_state =
        Inl (ValueError,
             issue_all (row_calls 0 (''Cube'', ''|pCube1'', ''Prop'', ''Root Only'')
                        @ row_calls 1 (''ShotCam'', ''|camera1'', ''Camera'', ''Light''))
               initial_state)"
    and y: "row_layouts (trace (result_state (PopulateSubjects outside_role_host initial_state)))
       = [''ColumnLayoutRow_0'', ''ColumnLayoutRow_1'']"
    by (simp_all add: row_error_def StreamTypes_values initial_state_def u upt_rec
          row_layouts_append row_layouts_row_calls LayoutName_def str_0 str_Suc_0)
  from g have z: "LiveLinkSubjectRoles outside_role_host (trace initial_state)
                    = Some [''Root Only'', ''Light'']"
    by blast
  from h v r q e z w x y show ?thesis by simp
qed

text \<open>
  The claim as it was stated fails for a subject whose type the table does not map: the
  four lists have two elements each, the first pass raises KeyError after creating its
  layout, and the second row is never created.
\<close>

theorem PopulateSubjects_rows_counterexample:
  "LiveLinkSubjectNames unmapped_type_host (trace initial_state) = Some [''Cube'', ''ShotCam'']
   \<and> LiveLinkSubjectPaths unmapped_type_host (trace initial_state) = Some [''|pCube1'', ''|camera1'']
   \<and> LiveLinkSubjectTypes unmapped_type_host (trace initial_state) = Some [''Mesh'', ''Camera'']
   \<and> LiveLinkSubjectRoles unmapped_type_host (trace initial_state) = Some [''Root Only'', ''Camera'']
   \<and> PopulateSubjects unmapped_type_host initial_state =
        Inl (KeyError ''Mesh'',
             issue_all (row_controls 0 (''Cube'', ''|pCube1'', ''Mesh'', ''Root Only'')) initial_state)
   \<and> row_layouts (trace (result_state (PopulateSubjects unmapped_type_host initial_state)))
        = [''ColumnLayoutRow_0'']
   \<and> length (row_layouts (trace (result_state (PopulateSubjects unmapped_type_host initial_state))))
        \<noteq> min (length [''Cube'', ''ShotCam'']) (min (length [''|pCube1'', ''|camera1''])
              (min (length [''Mesh'', ''Camera'']) (length [''Root Only'', ''Camera''])))"
proof -
  have p: "PopulateSubjects unmapped_type_host initial_state =
        Inl (KeyError ''Mesh'',
             issue_all (row_controls 0 (''Cube'', ''|pCube1'', ''Mesh'', ''Root Only'')) initial_state)"
    by (simp add: PopulateSubjects_def unmapped_type_host_simps zip4_def PopulateRow_def
          StreamTypes_values)
  have r: "row_layouts (trace (issue_all
              (row_controls 0 (''Cube'', ''|pCube1'', ''Mesh'', ''Root Only'')) initial_state))
           = [''ColumnLayoutRow_0'']"
    by (simp add: initial_state_def row_controls_def row_layouts_def map_filter_def
          LayoutName_def str_0)
  from p r show ?thesis by (simp add: unmapped_type_host_simps)
qed

section \<open>Collecting the command classes\<close>

text \<open>
  Claim C5. IsLiveLinkCommand never raises; it returns true exactly for a class that is a
  subclass of LiveLinkCommand and is not LiveLinkCommand itself, classes being compared by
  identity. For names that are all bound, GetLiveLinkCommandsFromModule returns the objects
  they are bound to that satisfy this predicate, in the order of the names. On the names
  this module binds, the result, Commands, is the three command classes.
\<close>

theorem Commands_are_strict_subclasses:
  "IsLiveLinkCommand CT InCls =
     Inr (isclass InCls \<and> issubclass CT InCls LiveLinkCommand = Inr True
          \<and> InCls \<noteq> LiveLinkCommand)
   \<and> ((\<forall>Item \<in> set ModuleItems. env Item \<noteq> None) \<longrightarrow>
        GetLiveLinkCommandsFromModule CT env ModuleItems =
          Inr (filter (\<lambda>Command. IsLiveLinkCommand CT Command = Inr True)
                 (List.map_filter env ModuleItems)))
   \<and> Commands = Inr [MayaLiveLinkRefreshConnectionUI, MayaLiveLinkRefreshUI, MayaLiveLinkUI]"
  using IsLiveLinkCommand_total GetLiveLinkCommandsFromModule_filter Commands_value by blast

theorem Commands_are_strict_subclasses_witness:
  "list_all (\<lambda>Item. map_of module_globals Item \<noteq> None)
      [''LiveLinkCommand'', ''MayaLiveLinkUI'', ''cmds'', ''Callback'']
   \<and> GetLiveLinkCommandsFromModule module_classes (map_of module_globals)
        [''LiveLinkCommand'', ''MayaLiveLinkUI'', ''cmds'', ''Callback''] = Inr [MayaLiveLinkUI]
   \<and> IsLiveLinkCommand module_classes LiveLinkCommand = Inr False
   \<and> IsLiveLinkCommand module_classes MayaLiveLinkUI = Inr True
   \<and> class_name (shadowing_classes 8) = ''LiveLinkCommand''
   \<and> class_mro (shadowing_classes 9) = [9, 8, 0]
   \<and> IsLiveLinkCommand shadowing_classes (PyClass 9) = Inr False"
proof -
  have h: "\<forall>Item \<in> set [''LiveLinkCommand'', ''MayaLiveLinkUI'', ''cmds'', ''Callback''].
      map_of module_globals Item \<noteq> None"
    by (simp add: module_globals_def)
  have m: "List.map_filter (map_of module_globals)
             [''LiveLinkCommand'', ''MayaLiveLinkUI'', ''cmds'', ''Callback'']
           = [LiveLinkCommand, MayaLiveLinkUI, PyOther ''module'', PyClass Callback_id]"
    by (simp add: module_globals_def map_filter_simps)
  from Commands_are_strict_subclasses
         [of module_classes LiveLinkCommand
             "[''LiveLinkCommand'', ''MayaLiveLinkUI'', ''cmds'', ''Callback'']"
             "map_of module_globals"] h
  have g: "GetLiveLinkCommandsFromModule module_classes (map_of module_globals)
        [''LiveLinkCommand'', ''MayaLiveLinkUI'', ''cmds'', ''Callback''] =
          Inr (filter (\<lambda>Command. IsLiveLinkCommand module_classes Command = Inr True)
                 (List.map_filter (map_of module_globals)
                    [''LiveLinkCommand'', ''MayaLiveLinkUI'', ''cmds'', ''Callback'']))"
    by blast
  from g have g': "GetLiveLinkCommandsFromModule module_classes (map_of module_globals)
        [''LiveLinkCommand'', ''MayaLiveLinkUI'', ''cmds'', ''Callback''] = Inr [MayaLiveLinkUI]"
    by (simp only: m) (simp add: IsLiveLinkCommand_values)
  from h have h': "list_all (\<lambda>Item. map_of module_globals Item \<noteq> None)
      [''LiveLinkCommand'', ''MayaLiveLinkUI'', ''cmds'', ''Callback'']"
    by (simp only: list_all_iff)
  from Commands_are_strict_subclasses [of shadowing_classes "PyClass 9" "[]" "Map.empty"]
  have f: "IsLiveLinkCommand shadowing_classes (PyClass 9) =
     Inr (isclass (PyClass 9) \<and> issubclass shadowing_classes (PyClass 9) LiveLinkCommand = Inr True
          \<and> PyClass 9 \<noteq> LiveLinkCommand)"
    by blast
  have "issubclass shadowing_classes (PyClass 9) LiveLinkCommand = Inr False"
    by (simp add: LiveLinkCommand_def shadowing_classes_Foo class_ids)
  with f have f': "IsLiveLinkCommand shadowing_classes (PyClass 9) = Inr False" by simp
  from h' g' f' show ?thesis by (simp add: IsLiveLinkCommand_values shadowing_classes_Foo)
qed

section \<open>The Ok handler of the endpoints dialog\<close>

text \<open>
  Claim C8. The Ok handler dismisses the dialog with the dictionary it builds from the two
  text fields. Its unicast endpoint is 0.0.0.0:0 when the unicast field is empty after
  stripping, and the stripped text otherwise. Its static endpoints are the empty list when
  the static field is empty after stripping; otherwise they are the field text split at
  the commas with each element stripped (the source splits the stripped text, which gives
  the same list).
\<close>

theorem OnOk_endpoints:
  "\<exists>d. OnOk H UnicastTextField StaticTextField s =
          (Json d, issue (Cmd ''layoutDialog'' [] [(''dismiss'', Json d)]) s)
      \<and> (strip (textField_text H (trace s) UnicastTextField) = [] \<longrightarrow>
            unicast d = ''0.0.0.0:0'')
      \<and> (strip (textField_text H (trace s) UnicastTextField) \<noteq> [] \<longrightarrow>
            unicast d = strip (textField_text H (trace s) UnicastTextField))
      \<and> (strip (textField_text H (trace s) StaticTextField) = [] \<longrightarrow> static d = [])
      \<and> (strip (textField_text H (trace s) StaticTextField) \<noteq> [] \<longrightarrow>
            static d = map strip (split (textField_text H (trace s) StaticTextField) CHR '','')
            \<and> static d =
                map strip (split (strip (textField_text H (trace s) StaticTextField)) CHR '',''))"
  by (simp add: OnOk_def OnOk_dict_def Let_def map_strip_split_strip isspace_comma)

theorem OnOk_endpoints_witness:
  "strip (textField_text editing_host (trace initial_state) ''control5'') \<noteq> []
   \<and> strip (textField_text editing_host (trace initial_state) ''control7'') \<noteq> []
   \<and> fst (OnOk editing_host ''control5'' ''control7'' initial_state) =
        Json \<lparr>unicast = ''127.0.0.1:7777'', static = [''10.0.0.2:6666'', ''10.0.0.3:6666'']\<rparr>
   \<and> strip (textField_text quiet_host (trace initial_state) ''control5'') = []
   \<and> strip (textField_text quiet_host (trace initial_state) ''control7'') = []
   \<and> fst (OnOk quiet_host ''control5'' ''control7'' initial_state) =
        Json \<lparr>unicast = ''0.0.0.0:0'', static = []\<rparr>"
proof -
  have e: "strip (textField_text editing_host (trace initial_state) ''control5'') = ''127.0.0.1:7777''"
    "strip (textField_text editing_host (trace initial_state) ''control7'')
       = ''10.0.0.2:6666 , 10.0.0.3:6666''"
    "map strip (split (textField_text editing_host (trace initial_state) ''control7'') CHR '','')
       = [''10.0.0.2:6666'', ''10.0.0.3:6666'']"
    by (simp_all only: editing_host_simps strip_examples)
  have q: "strip (textField_text quiet_host (trace initial_state) ''control5'') = []"
    "strip (textField_text quiet_host (trace initial_state) ''control7'') = []"
    by (simp_all add: quiet_host_def strip_examples)
  from OnOk_endpoints [of editing_host "''control5''" "''control7''" initial_state]
  obtain d where d: "OnOk editing_host ''control5'' ''control7'' initial_state =
          (Json d, issue (Cmd ''layoutDialog'' [] [(''dismiss'', Json d)]) initial_state)"
     "unicast d = ''127.0.0.1:7777''" "static d = [''10.0.0.2:6666'', ''10.0.0.3:6666'']"
    unfolding e by auto
  from OnOk_endpoints [of quiet_host "''control5''" "''control7''" initial_state]
  obtain d' where d': "OnOk quiet_host ''control5'' ''control7'' initial_state =
          (Json d', issue (Cmd ''layoutDialog'' [] [(''dismiss'', Json d')]) initial_state)"
     "unicast d' = ''0.0.0.0:0''" "static d' = []"
    unfolding q by auto
  from d d' e q show ?thesis by simp
qed

section \<open>Applying the endpoints of the dialog\<close>

text \<open>
  Claim C1. When the endpoints dialog ends with a non-empty result, the result is the
  dictionary of the Ok handler and ShowNetworkEndpointsDialog returns. After the dialog it
  issues the unicast setter exactly when the new unicast endpoint differs from the stored
  one, one removeEndpoint command exactly when some stored static endpoint is not among the
  new ones, with those endpoints as arguments (each once, in the order in which the
  interpreter iterates the set), and one addEndpoint command exactly when some new static
  endpoint is not among the stored ones, with those endpoints as arguments (each once), in
  this order. The dialog itself issues no LiveLinkMessagingSettings command, and none is
  issued at all when the new settings equal the stored ones.
\<close>

theorem ShowNetworkEndpointsDialog_setters:
  assumes "UnicastEndpoint = unicastEndpoint_q H (trace s)"
    and "StaticEndpoints = staticEndpoints_q H (trace s)"
    and "layoutDialog H UnicastEndpoint StaticEndpoints s = (result, s1)"
    and "truthy result"
  shows "\<exists>d s' Removed Added. result = Json d \<and> ShowNetworkEndpointsDialog H s = Inr s'
      \<and> trace s' = trace s1
          @ (if unicast d \<noteq> UnicastEndpoint then [set_unicastEndpoint (unicast d)] else [])
          @ (if set StaticEndpoints - set (static d) \<noteq> {} then [removeEndpoint Removed] else [])
          @ (if set (static d) - set StaticEndpoints \<noteq> {} then [addEndpoint Added] else [])
      \<and> set Removed = set StaticEndpoints - set (static d) \<and> distinct Removed
      \<and> set Added = set (static d) - set StaticEndpoints \<and> distinct Added
      \<and> filter is_MessagingSettings (trace s1) = filter is_MessagingSettings (trace s)
      \<and> (unicast d = UnicastEndpoint \<and> static d = StaticEndpoints \<longrightarrow> s' = s1)"
proof -
  from layoutDialog_result [OF assms(3)] assms(4) obtain d where d: "result = Json d"
    and f: "filter is_MessagingSettings (trace s1) = filter is_MessagingSettings (trace s)"
    by auto
  let ?s2 = "if unicast d \<noteq> UnicastEndpoint
             then issue (set_unicastEndpoint (unicast d)) s1 else s1"
  let ?R = "list_set_minus H StaticEndpoints (static d)"
  let ?A = "list_set_minus H (static d) StaticEndpoints"
  let ?s3 = "if ?R \<noteq> [] then issue (removeEndpoint ?R) ?s2 else ?s2"
  let ?s4 = "if ?A \<noteq> [] then issue (addEndpoint ?A) ?s3 else ?s3"
  have same: "?R = [] \<and> ?A = []" if "static d = StaticEndpoints"
    using that by (simp add: list_set_minus_Nil_iff)
  have r: "ShowNetworkEndpointsDialog H s = Inr ?s4"
  proof (cases "static d = StaticEndpoints")
    case True
    with same have "?s4 = ?s2" by simp
    moreover have "ShowNetworkEndpointsDialog H s = Inr ?s2"
      using assms(1,2,3) d True by (simp add: ShowNetworkEndpointsDialog_def Let_def)
    ultimately show ?thesis by simp
  next
    case False
    then show ?thesis
      using assms(1,2,3) d by (simp add: ShowNetworkEndpointsDialog_def Let_def)
  qed
  have t: "trace ?s4 = trace s1
          @ (if unicast d \<noteq> UnicastEndpoint then [set_unicastEndpoint (unicast d)] else [])
          @ (if set StaticEndpoints - set (static d) \<noteq> {} then [removeEndpoint ?R] else [])
          @ (if set (static d) - set StaticEndpoints \<noteq> {} then [addEndpoint ?A] else [])"
    by (simp add: list_set_minus_Nil_iff)
  have e: "?s4 = s1" if "unicast d = UnicastEndpoint \<and> static d = StaticEndpoints"
    using that same by simp
  have sR: "set ?R = set StaticEndpoints - set (static d)" and dR: "distinct ?R"
    and sA: "set ?A = set (static d) - set StaticEndpoints" and dA: "distinct ?A"
    by (simp_all only: set_list_set_minus distinct_list_set_minus)
  from d r t f e sR dR sA dA show ?thesis by blast
qed

theorem ShowNetworkEndpointsDialog_setters_witness:
  "truthy (fst (layoutDialog editing_host ''0.0.0.0:0'' [''10.0.0.1:6666''] initial_state))
   \<and> map (\<lambda>c. (set (call_args c), call_kwargs c))
        (filter is_MessagingSettings
          (trace (result_state (ShowNetworkEndpointsDialog editing_host initial_state))))
       = [({S ''127.0.0.1:7777''}, [(''unicastEndpoint'', B True)]),
          ({S ''10.0.0.1:6666''}, [(''staticEndpoints'', B True), (''removeEndpoint'', B True)]),
          ({S ''10.0.0.2:6666'', S ''10.0.0.3:6666''},
           [(''staticEndpoints'', B True), (''addEndpoint'', B True)])]"
proof -
  let ?d = "\<lparr>unicast = ''127.0.0.1:7777'', static = [''10.0.0.2:6666'', ''10.0.0.3:6666'']\<rparr>"
  let ?r = "layoutDialog editing_host ''0.0.0.0:0'' [''10.0.0.1:6666''] initial_state"
  have h1: "''0.0.0.0:0'' = unicastEndpoint_q editing_host (trace initial_state)"
    and h2: "[''10.0.0.1:6666''] = staticEndpoints_q editing_host (trace initial_state)"
    by (simp_all add: editing_host_simps)
  have h3: "?r = (fst ?r, snd ?r)" by simp
  have j: "fst ?r = Json ?d" by (rule editing_host_dialog)
  then have h4: "truthy (fst ?r)" by simp
  from ShowNetworkEndpointsDialog_setters [OF h1 h2 h3 h4] j
  obtain s' Removed Added where s': "ShowNetworkEndpointsDialog editing_host initial_state = Inr s'"
    "trace s' = trace (snd ?r)
          @ (if unicast ?d \<noteq> ''0.0.0.0:0'' then [set_unicastEndpoint (unicast ?d)] else [])
          @ (if set [''10.0.0.1:6666''] - set (static ?d) \<noteq> {}
             then [removeEndpoint Removed] else [])
          @ (if set (static ?d) - set [''10.0.0.1:6666''] \<noteq> {}
             then [addEndpoint Added] else [])"
    "set Removed = set [''10.0.0.1:6666''] - set (static ?d)"
    "set Added = set (static ?d) - set [''10.0.0.1:6666'']"
    "filter is_MessagingSettings (trace (snd ?r)) = filter is_MessagingSettings (trace initial_state)"
    by auto
  have m: "is_MessagingSettings (set_unicastEndpoint u)" "is_MessagingSettings (removeEndpoint xs)"
    "is_MessagingSettings (addEndpoint xs)" for u xs
    by (simp_all add: set_unicastEndpoint_def removeEndpoint_def addEndpoint_def)
  have c: "(set (call_args (set_unicastEndpoint u)), call_kwargs (set_unicastEndpoint u))
             = ({S u}, [(''unicastEndpoint'', B True)])"
    "(set (call_args (removeEndpoint xs)), call_kwargs (removeEndpoint xs))
             = (S ` set xs, [(''staticEndpoints'', B True), (''removeEndpoint'', B True)])"
    "(set (call_args (addEndpoint xs)), call_kwargs (addEndpoint xs))
             = (S ` set xs, [(''staticEndpoints'', B True), (''addEndpoint'', B True)])" for u xs
    by (simp_all add: set_unicastEndpoint_def removeEndpoint_def addEndpoint_def)
  have "map (\<lambda>c. (set (call_args c), call_kwargs c)) (filter is_MessagingSettings (trace s'))
       = [({S ''127.0.0.1:7777''}, [(''unicastEndpoint'', B True)]),
          ({S ''10.0.0.1:6666''}, [(''staticEndpoints'', B True), (''removeEndpoint'', B True)]),
          ({S ''10.0.0.2:6666'', S ''10.0.0.3:6666''},
           [(''staticEndpoints'', B True), (''addEndpoint'', B True)])]"
    unfolding s'(2) filter_append s'(5)
    by (simp add: m c s'(3,4) initial_state_def)
  with s'(1) h4 show ?thesis by simp
qed

section \<open>Loading and unloading the plugin\<close>

text \<open>
  Claim C2, as amended. When no registerCommand call of the run raises, initializePlugin
  registers every command class of Commands under the class's name, in order, then
  subscribes one kAfterPluginUnload callback and stores the id the host returns. When a
  registerCommand call raises, it writes the failure to the error stream and raises the
  exception again at the first such call: the commands before it are registered, the ones
  after it are not, no callback is subscribed and the stored id is unchanged.
  uninitializePlugin removes the stored callback when there is one (resetting the stored id
  to None) and deregisters every command class of Commands.

  The last conjunct gives the calls of uninitializePlugin exactly: after the removal of the
  callback, one deregisterCommand call for each command class, in order, each followed by a
  write to the error stream exactly when that call raised.
\<close>

theorem plugin_lifecycle:
  "((\<forall>k < length Cmds. \<not> register_raises_at H CT (trace s @ [Print ''LiveLink:'']) Cmds k) \<longrightarrow>
      (\<exists>s'. initializePlugin H CT Cmds s = Inr s'
         \<and> trace s' = trace s @ Print ''LiveLink:'' # concat (map (register_calls CT) Cmds)
                        @ [subscribe_call]
         \<and> AfterPluginUnloadCallbackId s' = Some (callback_id H (trace s'))))
   \<and> (\<forall>k. k < length Cmds
          \<and> register_raises_at H CT (trace s @ [Print ''LiveLink:'']) Cmds k
          \<and> (\<forall>j < k. \<not> register_raises_at H CT (trace s @ [Print ''LiveLink:'']) Cmds j) \<longrightarrow>
         initializePlugin H CT Cmds s =
           Inl (HostException ''registerCommand'',
                issue_all
                  (Print ''LiveLink:'' # concat (map (register_calls CT) (take k Cmds))
                   @ register_calls CT (Cmds ! k)
                   @ [StderrWrite (register_failed_message (cls_name CT (Cmds ! k)))]) s))
   \<and> AfterPluginUnloadCallbackId (uninitializePlugin H CT Cmds s) = None
   \<and> (\<exists>raised. length raised = length Cmds
         \<and> trace (uninitializePlugin H CT Cmds s) =
               trace s
               @ (case AfterPluginUnloadCallbackId s of
                    Some i \<Rightarrow> [RemoveCallback i] | None \<Rightarrow> [])
               @ deregister_passes CT Cmds raised
         \<and> filter (\<lambda>c. \<not> is_StderrWrite c) (deregister_passes CT Cmds raised)
              = map (\<lambda>Command. DeregisterCommand (cls_name CT Command)) Cmds
         \<and> (\<forall>k < length Cmds.
               raised ! k =
                 deregisterCommand_raises H
                   (trace s
                    @ (case AfterPluginUnloadCallbackId s of
                         Some i \<Rightarrow> [RemoveCallback i] | None \<Rightarrow> [])
                    @ deregister_passes CT (take k Cmds) (take k raised))
                   (cls_name CT (Cmds ! k))))"
proof (intro conjI allI impI)
  let ?s0 = "issue (Print ''LiveLink:'') s"
  assume "\<forall>k < length Cmds. \<not> register_raises_at H CT (trace s @ [Print ''LiveLink:'']) Cmds k"
  then have "\<forall>k < length Cmds. \<not> register_raises_at H CT (trace ?s0) Cmds k" by simp
  then have "register_loop H CT Cmds ?s0
             = Inr (issue_all (concat (map (register_calls CT) Cmds)) ?s0)"
    by (rule register_loop_ok)
  then show "\<exists>s'. initializePlugin H CT Cmds s = Inr s'
         \<and> trace s' = trace s @ Print ''LiveLink:'' # concat (map (register_calls CT) Cmds)
                        @ [subscribe_call]
         \<and> AfterPluginUnloadCallbackId s' = Some (callback_id H (trace s'))"
    by (simp add: initializePlugin_def Let_def subscribe_call_def)
next
  let ?s0 = "issue (Print ''LiveLink:'') s"
  fix k
  assume a: "k < length Cmds
          \<and> register_raises_at H CT (trace s @ [Print ''LiveLink:'']) Cmds k
          \<and> (\<forall>j < k. \<not> register_raises_at H CT (trace s @ [Print ''LiveLink:'']) Cmds j)"
  then have k: "k < length Cmds" and r: "register_raises_at H CT (trace ?s0) Cmds k"
    and n: "\<forall>j < k. \<not> register_raises_at H CT (trace ?s0) Cmds j"
    by simp_all
  from register_loop_first_raise [OF k r n]
  show "initializePlugin H CT Cmds s =
           Inl (HostException ''registerCommand'',
                issue_all
                  (Print ''LiveLink:'' # concat (map (register_calls CT) (take k Cmds))
                   @ register_calls CT (Cmds ! k)
                   @ [StderrWrite (register_failed_message (cls_name CT (Cmds ! k)))]) s)"
    by (simp add: initializePlugin_def)
next
  let ?s1 = "case AfterPluginUnloadCallbackId s of
               Some i \<Rightarrow> (issue (RemoveCallback i) s)\<lparr>AfterPluginUnloadCallbackId := None\<rparr>
             | None \<Rightarrow> s"
  from deregister_loop_passes [of Cmds H CT ?s1] obtain raised where
    "deregister_loop H CT Cmds ?s1 = issue_all (deregister_passes CT Cmds raised) ?s1"
    by blast
  then show "AfterPluginUnloadCallbackId (uninitializePlugin H CT Cmds s) = None"
    by (simp add: uninitializePlugin_def Let_def split: option.splits)
next
  let ?rm = "case AfterPluginUnloadCallbackId s of
               Some i \<Rightarrow> [RemoveCallback i] | None \<Rightarrow> []"
  let ?s1 = "case AfterPluginUnloadCallbackId s of
               Some i \<Rightarrow> (issue (RemoveCallback i) s)\<lparr>AfterPluginUnloadCallbackId := None\<rparr>
             | None \<Rightarrow> s"
  have t: "trace ?s1 = trace s @ ?rm"
    by (simp split: option.splits)
  from deregister_loop_passes [of Cmds H CT ?s1] obtain raised where
    l: "length raised = length Cmds"
    and e: "deregister_loop H CT Cmds ?s1 = issue_all (deregister_passes CT Cmds raised) ?s1"
    and a: "\<forall>k < length Cmds.
           raised ! k =
             deregisterCommand_raises H
               (trace ?s1 @ deregister_passes CT (take k Cmds) (take k raised))
               (cls_name CT (Cmds ! k))"
    by blast
  have u: "trace (uninitializePlugin H CT Cmds s) = trace s @ ?rm @ deregister_passes CT Cmds raised"
    using e t by (simp add: uninitializePlugin_def Let_def)
  have a': "\<forall>k < length Cmds.
           raised ! k =
             deregisterCommand_raises H
               (trace s @ ?rm @ deregister_passes CT (take k Cmds) (take k raised))
               (cls_name CT (Cmds ! k))"
    using a unfolding t by simp
  from l u a' filter_deregister_passes [OF l, of CT]
  show "\<exists>raised. length raised = length Cmds
         \<and> trace (uninitializePlugin H CT Cmds s) =
               trace s @ ?rm @ deregister_passes CT Cmds raised
         \<and> filter (\<lambda>c. \<not> is_StderrWrite c) (deregister_passes CT Cmds raised)
              = map (\<lambda>Command. DeregisterCommand (cls_name CT Command)) Cmds
         \<and> (\<forall>k < length Cmds.
               raised ! k =
                 deregisterCommand_raises H
                   (trace s @ ?rm @ deregister_passes CT (take k Cmds) (take k raised))
                   (cls_name CT (Cmds ! k)))"
    by blast
qed

theorem plugin_lifecycle_witness:
  "\<not> register_raises_at quiet_host module_classes (trace initial_state @ [Print ''LiveLink:''])
       [MayaLiveLinkRefreshConnectionUI, MayaLiveLinkRefreshUI, MayaLiveLinkUI] 0
   \<and> \<not> register_raises_at quiet_host module_classes (trace initial_state @ [Print ''LiveLink:''])
       [MayaLiveLinkRefreshConnectionUI, MayaLiveLinkRefreshUI, MayaLiveLinkUI] 1
   \<and> \<not> register_raises_at quiet_host module_classes (trace initial_state @ [Print ''LiveLink:''])
       [MayaLiveLinkRefreshConnectionUI, MayaLiveLinkRefreshUI, MayaLiveLinkUI] 2
   \<and> trace (result_state (initializePlugin quiet_host module_classes
        [MayaLiveLinkRefreshConnectionUI, MayaLiveLinkRefreshUI, MayaLiveLinkUI] initial_state))
      = [Print ''LiveLink:'',
         Print (registering_message ''MayaLiveLinkRefreshConnectionUI''),
         RegisterCommand ''MayaLiveLinkRefreshConnectionUI'' ''MayaLiveLinkRefreshConnectionUI'',
         Print (registering_message ''MayaLiveLinkRefreshUI''),
         RegisterCommand ''MayaLiveLinkRefreshUI'' ''MayaLiveLinkRefreshUI'',
         Print (registering_message ''MayaLiveLinkUI''),
         RegisterCommand ''MayaLiveLinkUI'' ''MayaLiveLinkUI'',
         subscribe_call]
   \<and> AfterPluginUnloadCallbackId (result_state (initializePlugin quiet_host module_classes
        [MayaLiveLinkRefreshConnectionUI, MayaLiveLinkRefreshUI, MayaLiveLinkUI] initial_state))
      = Some 8
   \<and> \<not> register_raises_at selective_host module_classes
         (trace initial_state @ [Print ''LiveLink:''])
         [MayaLiveLinkRefreshConnectionUI, MayaLiveLinkRefreshUI, MayaLiveLinkUI] 0
   \<and> register_raises_at selective_host module_classes
         (trace initial_state @ [Print ''LiveLink:''])
         [MayaLiveLinkRefreshConnectionUI, MayaLiveLinkRefreshUI, MayaLiveLinkUI] 1
   \<and> initializePlugin selective_host module_classes
        [MayaLiveLinkRefreshConnectionUI, MayaLiveLinkRefreshUI, MayaLiveLinkUI] initial_state
      = Inl (HostException ''registerCommand'',
             \<lparr>trace =
                [Print ''LiveLink:'',
                 Print (registering_message ''MayaLiveLinkRefreshConnectionUI''),
                 RegisterCommand ''MayaLiveLinkRefreshConnectionUI''
                   ''MayaLiveLinkRefreshConnectionUI'',
                 Print (registering_message ''MayaLiveLinkRefreshUI''),
                 RegisterCommand ''MayaLiveLinkRefreshUI'' ''MayaLiveLinkRefreshUI'',
                 StderrWrite (register_failed_message ''MayaLiveLinkRefreshUI'')],
              AfterPluginUnloadCallbackId = None\<rparr>)
   \<and> AfterPluginUnloadCallbackId (uninitializePlugin selective_host module_classes
        [MayaLiveLinkRefreshConnectionUI, MayaLiveLinkRefreshUI, MayaLiveLinkUI]
        \<lparr>trace = [], AfterPluginUnloadCallbackId = Some 8\<rparr>) = None
   \<and> trace (uninitializePlugin selective_host module_classes
        [MayaLiveLinkRefreshConnectionUI, MayaLiveLinkRefreshUI, MayaLiveLinkUI]
        \<lparr>trace = [], AfterPluginUnloadCallbackId = Some 8\<rparr>)
      = [RemoveCallback 8,
         DeregisterCommand ''MayaLiveLinkRefreshConnectionUI'',
         DeregisterCommand ''MayaLiveLinkRefreshUI'',
         DeregisterCommand ''MayaLiveLinkUI'',
         StderrWrite (unregister_failed_message ''MayaLiveLinkUI'')]"
proof -
  let ?Cmds = "[MayaLiveLinkRefreshConnectionUI, MayaLiveLinkRefreshUI, MayaLiveLinkUI]"
  let ?CT = module_classes
  let ?tr = "trace initial_state @ [Print ''LiveLink:'']"
  let ?s8 = "\<lparr>trace = [], AfterPluginUnloadCallbackId = Some 8\<rparr>"
  note n = module_classes_name
  have q: "\<not> register_raises_at quiet_host ?CT ?tr ?Cmds k" for k
    by (simp add: register_raises_at_def quiet_host_def)
  have s: "register_raises_at selective_host ?CT ?tr ?Cmds k
             = (cls_name ?CT (?Cmds ! k) = ''MayaLiveLinkRefreshUI'')" for k
    by (simp add: register_raises_at_def selective_host_def quiet_host_def)
  have s0: "\<not> register_raises_at selective_host ?CT ?tr ?Cmds 0"
    and s1: "register_raises_at selective_host ?CT ?tr ?Cmds 1"
    unfolding s by (simp_all add: n)
  have c: "callback_id quiet_host tr = length tr" for tr
    by (simp add: quiet_host_def)
  have hq: "\<forall>k < length ?Cmds. \<not> register_raises_at quiet_host ?CT ?tr ?Cmds k"
    using q by blast
  from plugin_lifecycle [of ?Cmds quiet_host ?CT initial_state, THEN conjunct1, THEN mp, OF hq]
  obtain s' where s': "initializePlugin quiet_host ?CT ?Cmds initial_state = Inr s'"
    "trace s' = trace initial_state @ Print ''LiveLink:'' # concat (map (register_calls ?CT) ?Cmds)
                  @ [subscribe_call]"
    "AfterPluginUnloadCallbackId s' = Some (callback_id quiet_host (trace s'))"
    by blast
  from s' have i: "trace (result_state (initializePlugin quiet_host ?CT ?Cmds initial_state))
      = [Print ''LiveLink:'',
         Print (registering_message ''MayaLiveLinkRefreshConnectionUI''),
         RegisterCommand ''MayaLiveLinkRefreshConnectionUI'' ''MayaLiveLinkRefreshConnectionUI'',
         Print (registering_message ''MayaLiveLinkRefreshUI''),
         RegisterCommand ''MayaLiveLinkRefreshUI'' ''MayaLiveLinkRefreshUI'',
         Print (registering_message ''MayaLiveLinkUI''),
         RegisterCommand ''MayaLiveLinkUI'' ''MayaLiveLinkUI'',
         subscribe_call]"
    and j: "AfterPluginUnloadCallbackId
              (result_state (initializePlugin quiet_host ?CT ?Cmds initial_state)) = Some 8"
    by (simp_all add: initial_state_def register_calls_def n c)
  have hs: "1 < length ?Cmds \<and> register_raises_at selective_host ?CT ?tr ?Cmds 1
            \<and> (\<forall>j < 1. \<not> register_raises_at selective_host ?CT ?tr ?Cmds j)"
    using s0 s1 by simp
  from plugin_lifecycle [of ?Cmds selective_host ?CT initial_state, THEN conjunct2, THEN conjunct1,
         THEN spec, THEN mp, OF hs]
  have f: "initializePlugin selective_host ?CT ?Cmds initial_state
      = Inl (HostException ''registerCommand'',
             \<lparr>trace =
                [Print ''LiveLink:'',
                 Print (registering_message ''MayaLiveLinkRefreshConnectionUI''),
                 RegisterCommand ''MayaLiveLinkRefreshConnectionUI''
                   ''MayaLiveLinkRefreshConnectionUI'',
                 Print (registering_message ''MayaLiveLinkRefreshUI''),
                 RegisterCommand ''MayaLiveLinkRefreshUI'' ''MayaLiveLinkRefreshUI'',
                 StderrWrite (register_failed_message ''MayaLiveLinkRefreshUI'')],
              AfterPluginUnloadCallbackId = None\<rparr>)"
    by (simp add: initial_state_def register_calls_def n issue_def)
  from plugin_lifecycle [of ?Cmds selective_host ?CT ?s8]
  obtain raised where u: "AfterPluginUnloadCallbackId (uninitializePlugin selective_host ?CT ?Cmds ?s8) = None"
    "length raised = length ?Cmds"
    "trace (uninitializePlugin selective_host ?CT ?Cmds ?s8) =
       trace ?s8 @ (case AfterPluginUnloadCallbackId ?s8 of
                    Some i \<Rightarrow> [RemoveCallback i] | None \<Rightarrow> [])
       @ deregister_passes ?CT ?Cmds raised"
    "\<forall>k < length ?Cmds.
       raised ! k =
         deregisterCommand_raises selective_host
           (trace ?s8 @ (case AfterPluginUnloadCallbackId ?s8 of
                    Some i \<Rightarrow> [RemoveCallback i] | None \<Rightarrow> [])
            @ deregister_passes ?CT (take k ?Cmds) (take k raised))
           (cls_name ?CT (?Cmds ! k))"
    by blast
  have d: "deregisterCommand_raises selective_host tr nm = (nm = ''MayaLiveLinkUI'')" for tr nm
    by (simp add: selective_host_def quiet_host_def)
  from u(2) obtain a b c where abc: "raised = [a, b, c]"
    by (auto simp: numeral_3_eq_3 length_Suc_conv)
  from u(4) have "raised ! 0 = False" "raised ! 1 = False" "raised ! 2 = True"
    unfolding d by (simp_all add: n)
  with abc have "raised = [False, False, True]" by simp
  with u(3) have k: "trace (uninitializePlugin selective_host ?CT ?Cmds ?s8)
      = [RemoveCallback 8,
         DeregisterCommand ''MayaLiveLinkRefreshConnectionUI'',
         DeregisterCommand ''MayaLiveLinkRefreshUI'',
         DeregisterCommand ''MayaLiveLinkUI'',
         StderrWrite (unregister_failed_message ''MayaLiveLinkUI'')]"
    by (simp add: deregister_calls_def n)
  from q [of 0] q [of 1] q [of 2] i j s0 s1 f u(1) k show ?thesis by blast
qed

text \<open>
  The claim as it was stated fails on a host whose registerCommand raises: the first
  registration is attempted, the failure is written to the error stream and raised again,
  so the two other commands are never registered, no callback is subscribed and the
  stored id stays None.
\<close>

theorem plugin_lifecycle_counterexample:
  "initializePlugin refusing_host module_classes
     [MayaLiveLinkRefreshConnectionUI, MayaLiveLinkRefreshUI, MayaLiveLinkUI] initial_state
   = Inl (HostException ''registerCommand'',
          \<lparr>trace =
             [Print ''LiveLink:'',
              Print (registering_message ''MayaLiveLinkRefreshConnectionUI''),
              RegisterCommand ''MayaLiveLinkRefreshConnectionUI'' ''MayaLiveLinkRefreshConnectionUI'',
              StderrWrite (register_failed_message ''MayaLiveLinkRefreshConnectionUI'')],
           AfterPluginUnloadCallbackId = None\<rparr>)"
  by (simp add: initializePlugin_def Let_def refusing_host_def quiet_host_def initial_state_def
        issue_def module_classes_name)

end
